theory Spec2Isabelle
  imports Main "HOL-Library.Sublist"
begin

section \<open>Python strings\<close>

text \<open>
  A Python \<open>str\<close> is modelled as a \<open>string\<close> in which every \<open>char\<close> stands for one
  character (the code points below 256), so \<open>length\<close> is Python's \<open>len\<close>, \<open>take n s\<close> is the
  slice \<open>s[:n]\<close> and \<open>sublist sub s\<close> is the test \<open>sub in s\<close>.
\<close>

definition lower_char :: "char \<Rightarrow> char" where
  \<comment> \<open>\<open>str.lower\<close> on one character: the ASCII capitals and the Latin-1 capitals
      (U+00C0 to U+00DE without the multiplication sign U+00D7) move up by 32.\<close>
  "lower_char c =
     (let n = (of_char c :: nat)
      in if (65 \<le> n \<and> n \<le> 90) \<or> (192 \<le> n \<and> n \<le> 222 \<and> n \<noteq> 215)
         then char_of (n + 32) else c)"

definition lower :: "string \<Rightarrow> string" where
  "lower s = map lower_char s"

definition isspace :: "char \<Rightarrow> bool" where
  \<comment> \<open>the characters below 256 that \<open>str.isspace\<close> accepts\<close>
  "isspace c = ((of_char c :: nat) \<in> {9, 10, 11, 12, 13, 28, 29, 30, 31, 32, 133, 160})"

definition strip :: "string \<Rightarrow> string" where
  \<comment> \<open>\<open>str.strip()\<close>: whitespace removed at both ends\<close>
  "strip s = rev (dropWhile isspace (rev (dropWhile isspace s)))"

fun join :: "string \<Rightarrow> string list \<Rightarrow> string" where
  \<comment> \<open>\<open>sep.join(parts)\<close>\<close>
  "join sep [] = []"
| "join sep [p] = p"
| "join sep (p # q # ps) = p @ sep @ join sep (q # ps)"

section \<open>The generative model\<close>

text \<open>
  \<open>model.generate_content(full_prompt)\<close> is the one external call of the responder. Its
  outcome is either a response, of which the code reads \<open>response.text\<close>, or a raised
  exception, of which the code reads \<open>str(e)\<close>. The model is a parameter \<open>gen\<close> of every
  operation that calls it.
\<close>

datatype gen_result = Response string | Failure string

type_synonym generate_content = "string \<Rightarrow> gen_result"

subsection \<open>\<open>get_ai_response\<close> of \<open>app.py\<close>\<close>

definition system_prompt :: string where
  "system_prompt = ''You are NexusChat, a friendly AI assistant.''"

definition full_prompt :: "string \<Rightarrow> string \<Rightarrow> string" where
  "full_prompt prompt context =
     system_prompt @ ''\<newline>\<newline>Context: '' @ context @ ''\<newline>\<newline>User: '' @ prompt
       @ ''\<newline>Assistant:''"

definition get_ai_response :: "generate_content \<Rightarrow> string \<Rightarrow> string \<Rightarrow> string" where
  "get_ai_response gen prompt context =
     (case gen (full_prompt prompt context) of
        Response text \<Rightarrow> (if text \<noteq> [] then text else ''No response.'')
      | Failure e \<Rightarrow> ''AI error: '' @ e)"

subsection \<open>\<open>get_ai_response\<close> of \<open>app_mysql.py\<close>\<close>

definition system_prompt_mysql :: string where
  \<open>system_prompt_mysql =
     ''You are NexusChat, a helpful and friendly AI assistant. You should:\<newline>''
     @ ''- Respond naturally and conversationally like a helpful friend\<newline>''
     @ ''- Be warm, engaging, and personable in your responses\<newline>''
     @ ''- Answer questions directly and helpfully\<newline>''
     @ ''- If someone greets you (like "hi", "hello", "how are you"), respond naturally like a human would\<newline>''
     @ ''- Keep responses concise but informative\<newline>''
     @ ''- Don't over-analyze simple greetings or casual conversation\<newline>''
     @ ''- Be supportive and encouraging\<newline>''
     @ ''\<newline>''
     @ ''Remember: You're having a conversation, not analyzing text or providing academic explanations.''\<close>

definition full_prompt_mysql :: "string \<Rightarrow> string \<Rightarrow> string" where
  "full_prompt_mysql prompt context =
     (if context \<noteq> []
      then system_prompt_mysql @ ''\<newline>\<newline>Previous conversation context: '' @ context
             @ ''\<newline>\<newline>User: '' @ prompt @ ''\<newline>\<newline>Assistant:''
      else system_prompt_mysql @ ''\<newline>\<newline>User: '' @ prompt @ ''\<newline>\<newline>Assistant:'')"

definition model_not_found_sentence :: string where
  "model_not_found_sentence =
     ''I apologize, but I'm having trouble connecting to the AI service: Model not found. Please check the API configuration.''"

definition permission_sentence :: string where
  "permission_sentence =
     ''I apologize, but there's an API permission issue. Please check your API key.''"

definition quota_sentence :: string where
  "quota_sentence =
     ''I apologize, but the API quota has been exceeded. Please try again later.''"

definition authentication_sentence :: string where
  "authentication_sentence =
     ''I apologize, but there's an authentication issue with the AI service.''"

definition generic_prefix :: string where
  "generic_prefix = ''I apologize, but I'm having trouble connecting to the AI service: ''"

definition get_ai_response_except :: "string \<Rightarrow> string" where
  \<comment> \<open>the \<open>except Exception as e\<close> branch; the argument is \<open>str(e)\<close>\<close>
  "get_ai_response_except e =
     (let error_msg = lower e
      in if sublist ''not found'' error_msg \<or> sublist ''404'' error_msg
           then model_not_found_sentence
         else if sublist ''permission'' error_msg \<or> sublist ''403'' error_msg
           then permission_sentence
         else if sublist ''quota'' error_msg \<or> sublist ''limit'' error_msg
           then quota_sentence
         else if sublist ''key'' error_msg \<or> sublist ''auth'' error_msg
           then authentication_sentence
         else generic_prefix @ take 100 e)"

definition get_ai_response_mysql :: "generate_content \<Rightarrow> string \<Rightarrow> string \<Rightarrow> string" where
  "get_ai_response_mysql gen prompt context =
     (case gen (full_prompt_mysql prompt context) of
        Response text \<Rightarrow>
          (if text \<noteq> [] then text
           else ''I received an empty response. Please try rephrasing your question.'')
      | Failure e \<Rightarrow> get_ai_response_except e)"

section \<open>The store\<close>

text \<open>
  The collections of the MongoDB backend (\<open>app.py\<close>) and the tables of the MySQL backend
  (\<open>app_mysql.py\<close>) hold the same documents. A collection is the list of its documents in
  insertion order; \<open>insert_one\<close> appends and draws the new \<open>_id\<close> from \<open>next_id\<close>. An
  identifier (an \<open>ObjectId\<close>, its hexadecimal string, or an auto-increment key) is a natural
  number, so the conversions \<open>ObjectId(s)\<close> and \<open>str(oid)\<close> are the identity.
\<close>

type_synonym oid = nat

record chat_session =
  s_id :: oid
  s_user_id :: oid
  s_updated_at :: nat

record message =
  m_session_id :: oid
  m_sender :: string
  m_content :: string
  m_timestamp :: nat

record uploaded_item =
  u_id :: oid
  u_session_id :: oid
  u_user_id :: oid
  u_original_filename :: string
  u_file_type :: string
  u_file_size :: nat
  u_mime_type :: string
  u_file_content :: string
  u_extracted_text :: string
  u_uploaded_at :: nat

record analysis_result =
  a_id :: oid
  a_item_id :: oid
  a_session_id :: oid
  a_analysis_type :: string
  a_summary :: string
  a_created_at :: nat

record db =
  chat_sessions :: "chat_session list"
  messages :: "message list"
  uploaded_items :: "uploaded_item list"
  analysis_results :: "analysis_result list"
  next_id :: oid

definition sort_desc :: "('a \<Rightarrow> nat) \<Rightarrow> 'a list \<Rightarrow> 'a list" where
  \<comment> \<open>\<open>.sort(key, -1)\<close> and \<open>ORDER BY key DESC\<close>; documents with equal keys come latest first\<close>
  "sort_desc key xs = rev (sort_key key xs)"

fun update_session :: "oid \<Rightarrow> nat \<Rightarrow> chat_session list \<Rightarrow> chat_session list" where
  \<comment> \<open>\<open>update_one({"_id": sid}, {"$set": {"updated_at": t}})\<close>\<close>
  "update_session sid t [] = []"
| "update_session sid t (s # ss) =
     (if s_id s = sid then s\<lparr>s_updated_at := t\<rparr> # ss else s # update_session sid t ss)"

section \<open>External services\<close>

text \<open>
  What a request reads from outside the store: the text layer that PyMuPDF finds in a file
  (\<open>None\<close> when it raises), the text that Tesseract reads from an image (\<open>None\<close> when it
  raises), the vision model called with an instruction and an image, the text model, the MIME
  type guessed from a file name, and the clock (\<open>utcnow k\<close> is the reading of
  \<open>datetime.utcnow()\<close> at the \<open>k\<close>-th place of the operation that calls it).
\<close>

record services =
  fitz_text :: "string \<Rightarrow> string option"
  image_to_string :: "string \<Rightarrow> string option"
  vision_generate :: "string \<Rightarrow> string \<Rightarrow> gen_result"
  generate :: generate_content
  guess_type :: "string \<Rightarrow> string option"
  utcnow :: "nat \<Rightarrow> nat"

section \<open>Utility functions\<close>

datatype py_error = IndexError

definition index :: "'a list \<Rightarrow> nat \<Rightarrow> py_error + 'a" where
  \<comment> \<open>\<open>xs[i]\<close> for \<open>i \<ge> 0\<close>\<close>
  "index xs i = (if i < length xs then Inr (xs ! i) else Inl IndexError)"

definition rsplit :: "string \<Rightarrow> string list" where
  \<comment> \<open>\<open>s.rsplit('.', 1)\<close>: cut at the last dot, if there is one\<close>
  "rsplit s =
     (if CHR ''.'' \<in> set s
      then [rev (tl (dropWhile (\<lambda>c. c \<noteq> CHR ''.'') (rev s))),
            rev (takeWhile (\<lambda>c. c \<noteq> CHR ''.'') (rev s))]
      else [s])"

definition ALLOWED_EXTENSIONS :: "string set" where
  "ALLOWED_EXTENSIONS = {''txt'', ''pdf'', ''png'', ''jpg'', ''jpeg'', ''gif'', ''webp''}"

definition allowed_file :: "string \<Rightarrow> bool" where
  "allowed_file filename =
     (CHR ''.'' \<in> set filename \<and>
      (case index (rsplit filename) 1 of
         Inl _ \<Rightarrow> False
       | Inr ext \<Rightarrow> lower ext \<in> ALLOWED_EXTENSIONS))"

definition extract_text_from_pdf :: "services \<Rightarrow> string \<Rightarrow> string" where
  "extract_text_from_pdf svc file_content =
     (case fitz_text svc file_content of None \<Rightarrow> [] | Some text \<Rightarrow> strip text)"

definition extract_text_from_image :: "services \<Rightarrow> string \<Rightarrow> string" where
  "extract_text_from_image svc file_content =
     (case image_to_string svc file_content of None \<Rightarrow> [] | Some text \<Rightarrow> strip text)"

record vision_result =
  success :: bool
  analysis :: string

definition analyze_image_with_vision :: "services \<Rightarrow> string \<Rightarrow> string \<Rightarrow> vision_result" where
  "analyze_image_with_vision svc file_content user_prompt =
     (case vision_generate svc user_prompt file_content of
        Response text \<Rightarrow> \<lparr>success = True, analysis = text\<rparr>
      | Failure e \<Rightarrow> \<lparr>success = False, analysis = ''Error: '' @ e\<rparr>)"

subsection \<open>\<open>werkzeug.utils.secure_filename\<close>\<close>

text \<open>
  The sanitizer is library code. It is modelled here for ASCII file names on a POSIX host,
  where Unicode normalisation is the identity and \<open>/\<close> is the only path separator: the
  separators become spaces, the name is split at whitespace and joined with underscores,
  every character outside \<open>[A-Za-z0-9_.-]\<close> is removed, and dots and underscores are
  stripped from both ends.
\<close>

fun split_acc :: "string \<Rightarrow> string \<Rightarrow> string list" where
  "split_acc cur [] = (if cur = [] then [] else [cur])"
| "split_acc cur (c # cs) =
     (if isspace c then (if cur = [] then split_acc [] cs else cur # split_acc [] cs)
      else split_acc (cur @ [c]) cs)"

definition split :: "string \<Rightarrow> string list" where
  \<comment> \<open>\<open>s.split()\<close>: the maximal runs of characters that are not whitespace\<close>
  "split s = split_acc [] s"

definition filename_char :: "char \<Rightarrow> bool" where
  "filename_char c =
     (let n = (of_char c :: nat)
      in (65 \<le> n \<and> n \<le> 90) \<or> (97 \<le> n \<and> n \<le> 122) \<or> (48 \<le> n \<and> n \<le> 57)
         \<or> c = CHR ''_'' \<or> c = CHR ''.'' \<or> c = CHR ''-'')"

definition strip_chars :: "char set \<Rightarrow> string \<Rightarrow> string" where
  \<comment> \<open>\<open>s.strip(chars)\<close>\<close>
  "strip_chars cs s = rev (dropWhile (\<lambda>c. c \<in> cs) (rev (dropWhile (\<lambda>c. c \<in> cs) s)))"

definition secure_filename :: "string \<Rightarrow> string" where
  "secure_filename filename =
     strip_chars {CHR ''.'', CHR ''_''}
       (filter filename_char
         (join ''_'' (split (map (\<lambda>c. if c = CHR ''/'' then CHR '' '' else c) filename))))"

section \<open>The MongoDB backend (\<open>app.py\<close>)\<close>

datatype http_error =
    LoginRequired            \<comment> \<open>401, from \<open>login_required\<close>\<close>
  | NoFileProvided           \<comment> \<open>400\<close>
  | SessionIdRequired        \<comment> \<open>400\<close>
  | NoFileSelected           \<comment> \<open>400\<close>
  | FileTypeNotAllowed       \<comment> \<open>400\<close>
  | SessionNotFound          \<comment> \<open>404\<close>
  | Unhandled py_error       \<comment> \<open>an exception that leaves the view function\<close>

subsection \<open>\<open>upload_file\<close>\<close>

record analysis_entry =
  e_type :: string
  e_content :: string
  e_success :: "bool option"

record upload_response =
  r_file_id :: oid
  r_filename :: string
  r_file_type :: string
  r_analyses :: "analysis_entry list"
  r_analysis_available :: bool
  r_extracted_text :: "string option"
  r_vision_preview :: "string option"

definition preview :: "nat \<Rightarrow> string \<Rightarrow> string" where
  \<comment> \<open>\<open>s[:n] + "..." if len(s) > n else s\<close>\<close>
  "preview n s = (if length s > n then take n s @ ''...'' else s)"

definition image_extensions :: "string list" where
  "image_extensions = [''png'', ''jpg'', ''jpeg'', ''gif'', ''webp'']"

definition extract_by_type ::
  "services \<Rightarrow> string \<Rightarrow> string \<Rightarrow> string \<times> vision_result option \<times> string" where
  \<comment> \<open>the \<open>try\<close> block of \<open>upload_file\<close>: \<open>(extracted_text, vision_analysis, file_type)\<close>\<close>
  "extract_by_type svc file_ext file_content =
     (if file_ext = ''pdf''
        then (extract_text_from_pdf svc file_content, None, ''pdf'')
      else if file_ext \<in> set image_extensions
        then (extract_text_from_image svc file_content,
              Some (analyze_image_with_vision svc file_content ''Describe this image''),
              ''image'')
      else ([], None, ''other''))"

definition save_text_analysis ::
  "services \<Rightarrow> oid \<Rightarrow> oid \<Rightarrow> string \<Rightarrow> string \<Rightarrow> db \<times> analysis_entry list
     \<Rightarrow> db \<times> analysis_entry list" where
  \<comment> \<open>\<open>if extracted_text.strip(): ...\<close>\<close>
  "save_text_analysis svc item_id session_id file_type extracted_text st =
     (case st of (d, analyses) \<Rightarrow>
        if strip extracted_text \<noteq> [] then
          let text_summary =
                get_ai_response (generate svc)
                  (''Summarize and extract key points:\<newline>\<newline>'' @ take 2000 extracted_text) []
          in (d\<lparr>analysis_results := analysis_results d @
                    [\<lparr>a_id = next_id d, a_item_id = item_id, a_session_id = session_id,
                      a_analysis_type = file_type @ ''_text_analysis'',
                      a_summary = text_summary, a_created_at = utcnow svc 1\<rparr>],
                 next_id := Suc (next_id d)\<rparr>,
              analyses @ [\<lparr>e_type = ''text_analysis'', e_content = text_summary,
                            e_success = None\<rparr>])
        else (d, analyses))"

definition save_vision_analysis ::
  "services \<Rightarrow> oid \<Rightarrow> oid \<Rightarrow> string \<Rightarrow> vision_result option \<Rightarrow> db \<times> analysis_entry list
     \<Rightarrow> db \<times> analysis_entry list" where
  \<comment> \<open>\<open>if file_type == "image" and vision_analysis: ...\<close>; a dictionary with keys is true\<close>
  "save_vision_analysis svc item_id session_id file_type vision_analysis st =
     (case st of (d, analyses) \<Rightarrow>
        (case vision_analysis of
           Some v \<Rightarrow>
             if file_type = ''image'' then
               (d\<lparr>analysis_results := analysis_results d @
                    [\<lparr>a_id = next_id d, a_item_id = item_id, a_session_id = session_id,
                      a_analysis_type = ''vision_analysis'',
                      a_summary = analysis v, a_created_at = utcnow svc 2\<rparr>],
                  next_id := Suc (next_id d)\<rparr>,
                analyses @ [\<lparr>e_type = ''vision_analysis'', e_content = analysis v,
                              e_success = Some (success v)\<rparr>])
             else (d, analyses)
         | None \<Rightarrow> (d, analyses)))"

definition process_upload ::
  "services \<Rightarrow> oid \<Rightarrow> oid \<Rightarrow> string \<Rightarrow> string \<Rightarrow> string \<Rightarrow> string \<Rightarrow> db
     \<Rightarrow> upload_response \<times> db" where
  \<comment> \<open>\<open>upload_file\<close> from the extraction on, once every check has passed and
      \<open>file_ext\<close> has been computed\<close>
  "process_upload svc user_id sid filename file_content original_filename file_ext d =
     (case extract_by_type svc file_ext file_content of
        (extracted_text, vision_analysis, file_type) \<Rightarrow>
          let file_size = length file_content;
              mime_type = (case guess_type svc filename of
                             None \<Rightarrow> ''application/octet-stream'' | Some t \<Rightarrow> t);
              item_id = next_id d;
              d1 = d\<lparr>uploaded_items := uploaded_items d @
                       [\<lparr>u_id = item_id, u_session_id = sid, u_user_id = user_id,
                         u_original_filename = original_filename,
                         u_file_type = file_type, u_file_size = file_size,
                         u_mime_type = mime_type, u_file_content = file_content,
                         u_extracted_text = extracted_text,
                         u_uploaded_at = utcnow svc 0\<rparr>],
                     next_id := Suc (next_id d)\<rparr>;
              st2 = save_text_analysis svc item_id sid file_type extracted_text (d1, []);
              st3 = save_vision_analysis svc item_id sid file_type vision_analysis st2;
              d3 = fst st3;
              analyses = snd st3;
              d4 = d3\<lparr>chat_sessions := update_session sid (utcnow svc 3) (chat_sessions d3)\<rparr>
          in (\<lparr>r_file_id = item_id, r_filename = original_filename,
               r_file_type = file_type, r_analyses = analyses,
               r_analysis_available = (length analyses > 0),
               r_extracted_text =
                 (if strip extracted_text \<noteq> []
                  then Some (preview 500 extracted_text) else None),
               r_vision_preview =
                 (case vision_analysis of
                    Some v \<Rightarrow>
                      if file_type = ''image'' \<and> success v
                      then Some (preview 300 (analysis v)) else None
                  | None \<Rightarrow> None)\<rparr>,
              d4))"

definition upload_file ::
  "services \<Rightarrow> oid option \<Rightarrow> (string \<times> string) option \<Rightarrow> oid option \<Rightarrow> db
     \<Rightarrow> (http_error + upload_response) \<times> db" where
  \<comment> \<open>\<open>user\<close> is \<open>session["user_id"]\<close>, \<open>file\<close> the name and the bytes of \<open>request.files["file"]\<close>,
      \<open>session_id\<close> the form field\<close>
  "upload_file svc user file session_id d =
     (case user of None \<Rightarrow> (Inl LoginRequired, d) | Some user_id \<Rightarrow>
     (case file of None \<Rightarrow> (Inl NoFileProvided, d) | Some (filename, file_content) \<Rightarrow>
     (case session_id of None \<Rightarrow> (Inl SessionIdRequired, d) | Some sid \<Rightarrow>
      if filename = [] then (Inl NoFileSelected, d)
      else if \<not> allowed_file filename then (Inl FileTypeNotAllowed, d)
      else if find (\<lambda>s. s_id s = sid \<and> s_user_id s = user_id) (chat_sessions d) = None
        then (Inl SessionNotFound, d)
      else
        (let original_filename = secure_filename filename
         in (case index (rsplit original_filename) 1 of
               Inl err \<Rightarrow> (Inl (Unhandled err), d)
             | Inr ext \<Rightarrow>
                 (case process_upload svc user_id sid filename file_content original_filename
                         (lower ext) d of
                    (response_data, d') \<Rightarrow> (Inr response_data, d')))))))"

subsection \<open>\<open>send_message\<close>\<close>

record message_response =
  user_message :: string
  ai_message :: string

definition text_context :: "uploaded_item \<Rightarrow> string" where
  "text_context file_doc =
     ''Extracted text from '' @ u_original_filename file_doc @ '':\<newline>''
       @ take 2000 (u_extracted_text file_doc)"

definition vision_context :: "uploaded_item \<Rightarrow> analysis_result \<Rightarrow> string" where
  "vision_context file_doc vision =
     ''Vision analysis for '' @ u_original_filename file_doc @ '':\<newline>''
       @ take 1000 (a_summary vision)"

definition find_vision :: "db \<Rightarrow> uploaded_item \<Rightarrow> analysis_result option" where
  \<comment> \<open>\<open>find_one({"item_id": str(file_doc["_id"]), "analysis_type": "vision_analysis"})\<close>\<close>
  "find_vision d file_doc =
     find (\<lambda>a. a_item_id a = u_id file_doc \<and> a_analysis_type a = ''vision_analysis'')
       (analysis_results d)"

definition file_contexts :: "db \<Rightarrow> oid \<Rightarrow> string list" where
  \<comment> \<open>the two loops over \<open>file_docs\<close>\<close>
  "file_contexts d session_id =
     (let file_docs = filter (\<lambda>u. u_session_id u = session_id) (uploaded_items d)
      in concat (map (\<lambda>file_doc.
                       if u_extracted_text file_doc \<noteq> [] then [text_context file_doc] else [])
                   file_docs)
         @ concat (map (\<lambda>file_doc.
                       case find_vision d file_doc of
                         None \<Rightarrow> []
                       | Some vision \<Rightarrow>
                           if a_summary vision \<noteq> [] then [vision_context file_doc vision]
                           else [])
                   file_docs))"

definition grounded_prompt :: "string \<Rightarrow> string \<Rightarrow> string" where
  "grounded_prompt content file_context =
     ''You are an expert assistant. Answer the user's question based ONLY on the following uploaded document(s) or image(s).\<newline>''
     @ ''User question: '' @ content @ ''\<newline>''
     @ ''\<newline>---\<newline>\<newline>'' @ file_context
     @ ''\<newline>\<newline>If the answer is not in the document/image, say 'I could not find the answer in the uploaded file.''
     @ [CHR 0x27]"

definition recent_context :: "db \<Rightarrow> oid \<Rightarrow> string" where
  \<comment> \<open>the fallback: the five latest messages of the session, oldest first\<close>
  "recent_context d session_id =
     (let recent_msgs =
            take 5 (sort_desc m_timestamp
                      (filter (\<lambda>m. m_session_id m = session_id) (messages d)))
      in join ''\<newline>'' (map (\<lambda>m. m_sender m @ '': '' @ m_content m) (rev recent_msgs)))"

definition ai_call :: "db \<Rightarrow> oid \<Rightarrow> string \<Rightarrow> string \<times> string" where
  \<comment> \<open>the arguments \<open>(prompt, context)\<close> with which \<open>send_message\<close> calls
      \<open>get_ai_response\<close>, read from the store that already holds the user's message\<close>
  "ai_call d session_id content =
     (let fcs = file_contexts d session_id
      in if fcs \<noteq> []
         then (grounded_prompt content (join ''\<newline>\<newline>'' fcs), [])
         else (content, recent_context d session_id))"


definition save_message :: "oid \<Rightarrow> string \<Rightarrow> string \<Rightarrow> nat \<Rightarrow> db \<Rightarrow> db" where
  \<comment> \<open>\<open>messages.insert_one\<close>; the \<open>_id\<close> of a message is never read and is left out\<close>
  "save_message session_id sender content t d =
     d\<lparr>messages := messages d @
          [\<lparr>m_session_id = session_id, m_sender = sender, m_content = content,
            m_timestamp = t\<rparr>]\<rparr>"

definition send_message ::
  "services \<Rightarrow> oid option \<Rightarrow> oid \<Rightarrow> string \<Rightarrow> db \<Rightarrow> (http_error + message_response) \<times> db" where
  "send_message svc user session_id raw_content d =
     (case user of None \<Rightarrow> (Inl LoginRequired, d) | Some user_id \<Rightarrow>
        let content = strip raw_content;
            d1 = save_message session_id ''user'' content (utcnow svc 0) d
        in case ai_call d1 session_id content of
             (prompt, context) \<Rightarrow>
               let ai_reply = get_ai_response (generate svc) prompt context;
                   d2 = save_message session_id ''assistant'' ai_reply (utcnow svc 1) d1;
                   d3 = d2\<lparr>chat_sessions :=
                             update_session session_id (utcnow svc 2) (chat_sessions d2)\<rparr>
               in (Inr \<lparr>user_message = content, ai_message = ai_reply\<rparr>, d3))"

subsection \<open>\<open>get_analyses\<close>\<close>

record analysis_row =
  g_id :: oid
  g_item_id :: oid
  g_analysis_type :: string
  g_summary :: string
  g_created_at :: nat
  g_filename :: string
  g_file_type :: string

definition get_analyses :: "oid option \<Rightarrow> oid \<Rightarrow> db \<Rightarrow> http_error + analysis_row list" where
  "get_analyses user session_id d =
     (case user of None \<Rightarrow> Inl LoginRequired | Some user_id \<Rightarrow>
        let analyses = sort_desc a_created_at
                         (filter (\<lambda>a. a_session_id a = session_id) (analysis_results d))
        in Inr (map (\<lambda>analysis.
                       let item = find (\<lambda>u. u_id u = a_item_id analysis) (uploaded_items d)
                       in \<lparr>g_id = a_id analysis, g_item_id = a_item_id analysis,
                           g_analysis_type = a_analysis_type analysis,
                           g_summary = a_summary analysis,
                           g_created_at = a_created_at analysis,
                           g_filename = (case item of None \<Rightarrow> []
                                         | Some i \<Rightarrow> u_original_filename i),
                           g_file_type = (case item of None \<Rightarrow> []
                                          | Some i \<Rightarrow> u_file_type i)\<rparr>)
                  analyses))"

section \<open>The MySQL backend (\<open>app_mysql.py\<close>)\<close>

text \<open>
  The view functions of this backend open a connection first (\<open>connected\<close> tells whether
  \<open>get_db()\<close> returned one) and run inside \<open>try ... except Exception\<close>, which turns every
  exception into a response with status 500. The connection commits each statement
  (\<open>autocommit\<close>). The columns \<open>filename\<close> and \<open>key_points\<close>, which no operation modelled
  here reads back, are left out.
\<close>

datatype http_error_mysql =
    LoginRequired_mysql                \<comment> \<open>401\<close>
  | NoFileProvided_mysql               \<comment> \<open>400\<close>
  | SessionIdRequired_mysql            \<comment> \<open>400\<close>
  | NoFileSelected_mysql               \<comment> \<open>400\<close>
  | FileTypeNotAllowed_mysql           \<comment> \<open>400\<close>
  | SessionIdAndContentRequired        \<comment> \<open>400\<close>
  | DatabaseConnectionFailed           \<comment> \<open>500\<close>
  | SessionNotFound_mysql              \<comment> \<open>404\<close>
  | FailedToUploadFile py_error        \<comment> \<open>500, from the \<open>except\<close> clause of \<open>upload_file\<close>\<close>

definition vision_prompt_mysql :: "string \<Rightarrow> string" where
  "vision_prompt_mysql user_prompt =
     ''You are an advanced AI vision assistant. Please analyze this image and provide:\<newline>''
     @ ''\<newline>''
     @ ''1. **Main Description**: What do you see in this image?\<newline>''
     @ ''2. **Objects/Elements**: List the key objects, people, or elements present\<newline>''
     @ ''3. **Scene/Setting**: Describe the environment or setting\<newline>''
     @ ''4. **Colors & Composition**: Notable colors, lighting, and visual composition\<newline>''
     @ ''5. **Text Content**: Any text visible in the image (if any)\<newline>''
     @ ''6. **Additional Insights**: Interesting details, mood, or context\<newline>''
     @ ''\<newline>''
     @ ''User's specific request: '' @ user_prompt @ ''\<newline>''
     @ ''\<newline>''
     @ ''Please be detailed, accurate, and helpful in your analysis.''"

definition analyze_image_with_vision_mysql ::
  "services \<Rightarrow> string \<Rightarrow> string \<Rightarrow> vision_result" where
  "analyze_image_with_vision_mysql svc file_content user_prompt =
     (case vision_generate svc (vision_prompt_mysql user_prompt) file_content of
        Response text \<Rightarrow> \<lparr>success = True, analysis = text\<rparr>
      | Failure e \<Rightarrow>
          \<lparr>success = False,
           analysis = ''Unable to analyze the image visually. Error: '' @ e\<rparr>)"

definition get_ai_analysis :: "generate_content \<Rightarrow> string \<Rightarrow> string \<Rightarrow> string" where
  "get_ai_analysis gen text_content file_type =
     (let prompt =
            (if lower file_type = ''pdf''
             then ''Analyze this PDF content and provide:\<newline>''
                  @ ''1. A concise summary (2-3 sentences)\<newline>''
                  @ ''2. Key points (bullet format)\<newline>''
                  @ ''3. Main topics covered\<newline>''
                  @ ''4. Any important data or insights\<newline>''
                  @ ''\<newline>''
                  @ ''Content: '' @ text_content
             else ''Analyze this text extracted from an image and provide:\<newline>''
                  @ ''1. A summary of what was found\<newline>''
                  @ ''2. Key information identified\<newline>''
                  @ ''3. Any structured data or important details\<newline>''
                  @ ''\<newline>''
                  @ ''Extracted text: '' @ text_content)
      in case gen prompt of
           Response text \<Rightarrow> text
         | Failure e \<Rightarrow> ''Unable to analyze the content at this time.'')"

subsection \<open>\<open>upload_file\<close>\<close>

definition extract_by_type_mysql ::
  "services \<Rightarrow> string \<Rightarrow> string \<Rightarrow> string \<times> vision_result option \<times> string" where
  \<comment> \<open>\<open>(extracted_text, vision_analysis, file_type)\<close>; \<open>vision_analysis\<close> is \<open>None\<close> where
      the source leaves the local variable unbound\<close>
  "extract_by_type_mysql svc file_ext file_content =
     (if file_ext = ''pdf''
        then (extract_text_from_pdf svc file_content, None, ''pdf'')
      else if file_ext \<in> set image_extensions
        then (extract_text_from_image svc file_content,
              Some (analyze_image_with_vision_mysql svc file_content
                      ''Describe what you see in this image''),
              ''image'')
      else ([], None, ''other''))"

definition save_text_analysis_mysql ::
  "services \<Rightarrow> oid \<Rightarrow> oid \<Rightarrow> string \<Rightarrow> string \<Rightarrow> db \<times> analysis_entry list
     \<Rightarrow> db \<times> analysis_entry list" where
  "save_text_analysis_mysql svc item_id session_id file_type extracted_text st =
     (case st of (d, analysis_results_list) \<Rightarrow>
        if strip extracted_text \<noteq> [] then
          let text_analysis = get_ai_analysis (generate svc) extracted_text file_type
          in (d\<lparr>analysis_results := analysis_results d @
                    [\<lparr>a_id = next_id d, a_item_id = item_id, a_session_id = session_id,
                      a_analysis_type = file_type @ ''_text_analysis'',
                      a_summary = text_analysis, a_created_at = utcnow svc 1\<rparr>],
                 next_id := Suc (next_id d)\<rparr>,
              analysis_results_list @
                [\<lparr>e_type = ''text_analysis'', e_content = text_analysis, e_success = None\<rparr>])
        else (d, analysis_results_list))"

definition process_upload_mysql ::
  "services \<Rightarrow> oid \<Rightarrow> oid \<Rightarrow> string \<Rightarrow> string \<Rightarrow> string \<Rightarrow> string \<Rightarrow> db
     \<Rightarrow> upload_response \<times> db" where
  \<comment> \<open>\<open>upload_file\<close> from the extraction on\<close>
  "process_upload_mysql svc user_id sid filename file_content original_filename file_ext d =
     (case extract_by_type_mysql svc file_ext file_content of
        (extracted_text, vision_analysis, file_type) \<Rightarrow>
          let file_size = length file_content;
              mime_type = (case guess_type svc filename of
                             None \<Rightarrow> ''application/octet-stream'' | Some t \<Rightarrow> t);
              item_id = next_id d;
              d1 = d\<lparr>uploaded_items := uploaded_items d @
                       [\<lparr>u_id = item_id, u_session_id = sid, u_user_id = user_id,
                         u_original_filename = original_filename,
                         u_file_type = file_type, u_file_size = file_size,
                         u_mime_type = mime_type, u_file_content = file_content,
                         u_extracted_text = extracted_text,
                         u_uploaded_at = utcnow svc 0\<rparr>],
                     next_id := Suc (next_id d)\<rparr>;
              st2 = save_text_analysis_mysql svc item_id sid file_type extracted_text (d1, []);
              st3 = save_vision_analysis svc item_id sid file_type vision_analysis st2;
              d3 = fst st3;
              analysis_results_list = snd st3;
              d4 = d3\<lparr>chat_sessions := update_session sid (utcnow svc 3) (chat_sessions d3)\<rparr>
          in (\<lparr>r_file_id = item_id, r_filename = original_filename,
               r_file_type = file_type, r_analyses = analysis_results_list,
               r_analysis_available = (length analysis_results_list > 0),
               r_extracted_text =
                 (if strip extracted_text \<noteq> []
                  then Some (preview 500 extracted_text) else None),
               r_vision_preview =
                 (case vision_analysis of
                    Some v \<Rightarrow>
                      if file_type = ''image'' \<and> success v
                      then Some (preview 300 (analysis v)) else None
                  | None \<Rightarrow> None)\<rparr>,
              d4))"

definition upload_file_mysql ::
  "services \<Rightarrow> bool \<Rightarrow> oid option \<Rightarrow> (string \<times> string) option \<Rightarrow> oid option \<Rightarrow> db
     \<Rightarrow> (http_error_mysql + upload_response) \<times> db" where
  "upload_file_mysql svc connected user file session_id d =
     (case user of None \<Rightarrow> (Inl LoginRequired_mysql, d) | Some user_id \<Rightarrow>
     (case file of None \<Rightarrow> (Inl NoFileProvided_mysql, d) | Some (filename, file_content) \<Rightarrow>
     (case session_id of None \<Rightarrow> (Inl SessionIdRequired_mysql, d) | Some sid \<Rightarrow>
      if filename = [] then (Inl NoFileSelected_mysql, d)
      else if \<not> allowed_file filename then (Inl FileTypeNotAllowed_mysql, d)
      else if \<not> connected then (Inl DatabaseConnectionFailed, d)
      else if find (\<lambda>s. s_id s = sid \<and> s_user_id s = user_id) (chat_sessions d) = None
        then (Inl SessionNotFound_mysql, d)
      else
        (let original_filename = secure_filename filename
         in (case index (rsplit original_filename) 1 of
               Inl err \<Rightarrow> (Inl (FailedToUploadFile err), d)
             | Inr ext \<Rightarrow>
                 (case process_upload_mysql svc user_id sid filename file_content
                         original_filename (lower ext) d of
                    (response_data, d') \<Rightarrow> (Inr response_data, d')))))))"

subsection \<open>\<open>get_analyses\<close>\<close>

definition get_analyses_mysql ::
  "bool \<Rightarrow> oid option \<Rightarrow> oid \<Rightarrow> db \<Rightarrow> http_error_mysql + analysis_row list" where
  \<comment> \<open>\<open>FROM analysis_results a JOIN uploaded_items u ON a.item_id = u.id
      WHERE a.session_id = %s ORDER BY a.created_at DESC\<close>\<close>
  "get_analyses_mysql connected user session_id d =
     (case user of None \<Rightarrow> Inl LoginRequired_mysql | Some user_id \<Rightarrow>
        if \<not> connected then Inl DatabaseConnectionFailed
        else if find (\<lambda>s. s_id s = session_id \<and> s_user_id s = user_id) (chat_sessions d) = None
          then Inl SessionNotFound_mysql
        else
          Inr (concat (map (\<lambda>a.
                  map (\<lambda>u. \<lparr>g_id = a_id a, g_item_id = a_item_id a,
                              g_analysis_type = a_analysis_type a, g_summary = a_summary a,
                              g_created_at = a_created_at a,
                              g_filename = u_original_filename u,
                              g_file_type = u_file_type u\<rparr>)
                    (filter (\<lambda>u. a_item_id a = u_id u) (uploaded_items d)))
                (sort_desc a_created_at
                   (filter (\<lambda>a. a_session_id a = session_id) (analysis_results d))))))"

subsection \<open>\<open>send_message\<close>\<close>

definition conversation_context :: "db \<Rightarrow> oid \<Rightarrow> string" where
  \<comment> \<open>the ten latest messages of the session, oldest first, under the roles
      \<open>Human\<close> and \<open>Assistant\<close>\<close>
  "conversation_context d session_id =
     (let recent_messages =
            take 10 (sort_desc m_timestamp
                       (filter (\<lambda>m. m_session_id m = session_id) (messages d)))
      in join ''\<newline>''
           (map (\<lambda>msg. (if m_sender msg = ''user'' then ''Human'' else ''Assistant'')
                         @ '': '' @ m_content msg)
              (rev recent_messages)))"

definition file_content_context :: "db \<Rightarrow> oid \<Rightarrow> oid \<Rightarrow> oid option \<Rightarrow> string" where
  \<comment> \<open>\<open>file_content\<close>: empty without a \<open>file_id\<close> or when the file is not found\<close>
  "file_content_context d session_id user_id file_id =
     (case file_id of None \<Rightarrow> [] | Some fid \<Rightarrow>
     (case find (\<lambda>u. u_id u = fid \<and> u_session_id u = session_id \<and> u_user_id u = user_id)
             (uploaded_items d) of
        None \<Rightarrow> []
      | Some file_data \<Rightarrow>
          let vision_context =
                (if u_file_type file_data = ''image'' then
                   (case sort_desc a_created_at
                           (filter (\<lambda>a. a_item_id a = fid \<and>
                                         a_analysis_type a \<in>
                                           {''vision_analysis'', ''custom_vision_analysis''})
                              (analysis_results d)) of
                      [] \<Rightarrow> []
                    | vision_result # _ \<Rightarrow>
                        ''\<newline>\<newline>Image Visual Analysis:\<newline>'' @ a_summary vision_result)
                 else [])
          in ''\<newline>\<newline>Uploaded File Context:\<newline>File: '' @ u_original_filename file_data
             @ ''\<newline>Type: '' @ u_file_type file_data
             @ (if strip (u_extracted_text file_data) \<noteq> []
                then ''\<newline>Extracted Text: '' @ u_extracted_text file_data else [])
             @ vision_context))"

definition send_message_mysql ::
  "services \<Rightarrow> bool \<Rightarrow> oid option \<Rightarrow> oid option \<Rightarrow> string \<Rightarrow> oid option \<Rightarrow> db
     \<Rightarrow> (http_error_mysql + message_response) \<times> db" where
  "send_message_mysql svc connected user session_id raw_content file_id d =
     (case user of None \<Rightarrow> (Inl LoginRequired_mysql, d) | Some user_id \<Rightarrow>
        let content = strip raw_content
        in (case session_id of None \<Rightarrow> (Inl SessionIdAndContentRequired, d) | Some sid \<Rightarrow>
           if content = [] then (Inl SessionIdAndContentRequired, d)
           else if \<not> connected then (Inl DatabaseConnectionFailed, d)
           else if find (\<lambda>s. s_id s = sid \<and> s_user_id s = user_id) (chat_sessions d) = None
             then (Inl SessionNotFound_mysql, d)
           else
             let d1 = save_message sid ''user'' content (utcnow svc 0) d;
                 full_context = conversation_context d1 sid
                                  @ file_content_context d1 sid user_id file_id;
                 ai_response = get_ai_response_mysql (generate svc) content full_context;
                 d2 = save_message sid ''assistant'' ai_response (utcnow svc 1) d1;
                 d3 = d2\<lparr>chat_sessions := update_session sid (utcnow svc 2) (chat_sessions d2)\<rparr>
             in (Inr \<lparr>user_message = content, ai_message = ai_response\<rparr>, d3)))"

section \<open>Example stores and services\<close>

text \<open>
  The concrete inputs at which the theorems below are evaluated: one session, number 1, owned
  by user 7; services whose text model answers with the prompt it was given, so that a reply
  shows the prompt that was composed.
\<close>

definition db0 :: db where
  "db0 = \<lparr>chat_sessions = [\<lparr>s_id = 1, s_user_id = 7, s_updated_at = 0\<rparr>],
          messages = [], uploaded_items = [], analysis_results = [], next_id = 2\<rparr>"

definition vision_down :: services where
  \<comment> \<open>both extractors raise and the vision model times out\<close>
  "vision_down =
     \<lparr>fitz_text = (\<lambda>_. None), image_to_string = (\<lambda>_. None),
      vision_generate = (\<lambda>_ _. Failure ''timeout''), generate = (\<lambda>p. Response p),
      guess_type = (\<lambda>_. None), utcnow = (\<lambda>k. 100 + k)\<rparr>"

definition camera_ok :: services where
  \<comment> \<open>every external call succeeds\<close>
  "camera_ok =
     \<lparr>fitz_text = (\<lambda>_. Some ''Quarterly revenue rose 12%.''),
      image_to_string = (\<lambda>_. Some '' STOP\<newline>''),
      vision_generate = (\<lambda>_ _. Response ''A red stop sign.''),
      generate = (\<lambda>p. Response ''summary''),
      guess_type = (\<lambda>_. Some ''image/png''), utcnow = (\<lambda>k. 100 + k)\<rparr>"

definition long_outputs :: services where
  \<comment> \<open>extracted texts of 501 characters and a description of 301 characters\<close>
  "long_outputs =
     \<lparr>fitz_text = (\<lambda>_. Some (replicate 501 (CHR ''a''))),
      image_to_string = (\<lambda>_. Some (replicate 501 (CHR ''a''))),
      vision_generate = (\<lambda>_ _. Response (replicate 301 (CHR ''b''))),
      generate = (\<lambda>p. Response ''summary''),
      guess_type = (\<lambda>_. None), utcnow = (\<lambda>k. 100 + k)\<rparr>"

definition photo_item :: uploaded_item where
  "photo_item =
     \<lparr>u_id = 2, u_session_id = 1, u_user_id = 7, u_original_filename = ''photo.png'',
      u_file_type = ''image'', u_file_size = 5, u_mime_type = ''application/octet-stream'',
      u_file_content = ''bytes'', u_extracted_text = [], u_uploaded_at = 100\<rparr>"

definition photo_response :: upload_response where
  "photo_response =
     \<lparr>r_file_id = 2, r_filename = ''photo.png'', r_file_type = ''image'',
      r_analyses = [\<lparr>e_type = ''vision_analysis'', e_content = ''Error: timeout'',
                     e_success = Some False\<rparr>],
      r_analysis_available = True, r_extracted_text = None, r_vision_preview = None\<rparr>"

definition db_photo :: db where
  \<comment> \<open>\<open>db0\<close> after the upload of \<open>photo.png\<close> under \<open>vision_down\<close> (MongoDB backend)\<close>
  "db_photo =
     \<lparr>chat_sessions = [\<lparr>s_id = 1, s_user_id = 7, s_updated_at = 103\<rparr>],
      messages = [], uploaded_items = [photo_item],
      analysis_results =
        [\<lparr>a_id = 3, a_item_id = 2, a_session_id = 1, a_analysis_type = ''vision_analysis'',
          a_summary = ''Error: timeout'', a_created_at = 102\<rparr>],
      next_id = 4\<rparr>"

definition photo_response_mysql :: upload_response where
  "photo_response_mysql =
     \<lparr>r_file_id = 2, r_filename = ''photo.png'', r_file_type = ''image'',
      r_analyses = [\<lparr>e_type = ''vision_analysis'',
                     e_content = ''Unable to analyze the image visually. Error: timeout'',
                     e_success = Some False\<rparr>],
      r_analysis_available = True, r_extracted_text = None, r_vision_preview = None\<rparr>"

definition db_photo_mysql :: db where
  \<comment> \<open>the same upload in the MySQL backend\<close>
  "db_photo_mysql =
     \<lparr>chat_sessions = [\<lparr>s_id = 1, s_user_id = 7, s_updated_at = 103\<rparr>],
      messages = [], uploaded_items = [photo_item],
      analysis_results =
        [\<lparr>a_id = 3, a_item_id = 2, a_session_id = 1, a_analysis_type = ''vision_analysis'',
          a_summary = ''Unable to analyze the image visually. Error: timeout'',
          a_created_at = 102\<rparr>],
      next_id = 4\<rparr>"

definition sign_response :: upload_response where
  "sign_response =
     \<lparr>r_file_id = 2, r_filename = ''sign.png'', r_file_type = ''image'',
      r_analyses = [\<lparr>e_type = ''text_analysis'', e_content = ''summary'', e_success = None\<rparr>,
                    \<lparr>e_type = ''vision_analysis'', e_content = ''A red stop sign.'',
                     e_success = Some True\<rparr>],
      r_analysis_available = True, r_extracted_text = Some ''STOP'',
      r_vision_preview = Some ''A red stop sign.''\<rparr>"

definition db_sign :: db where
  \<comment> \<open>\<open>db0\<close> after the upload of \<open>sign.png\<close> under \<open>camera_ok\<close> (either backend)\<close>
  "db_sign =
     \<lparr>chat_sessions = [\<lparr>s_id = 1, s_user_id = 7, s_updated_at = 103\<rparr>],
      messages = [],
      uploaded_items =
        [\<lparr>u_id = 2, u_session_id = 1, u_user_id = 7, u_original_filename = ''sign.png'',
          u_file_type = ''image'', u_file_size = 5, u_mime_type = ''image/png'',
          u_file_content = ''bytes'', u_extracted_text = ''STOP'', u_uploaded_at = 100\<rparr>],
      analysis_results =
        [\<lparr>a_id = 3, a_item_id = 2, a_session_id = 1,
          a_analysis_type = ''image_text_analysis'', a_summary = ''summary'',
          a_created_at = 101\<rparr>,
         \<lparr>a_id = 4, a_item_id = 2, a_session_id = 1, a_analysis_type = ''vision_analysis'',
          a_summary = ''A red stop sign.'', a_created_at = 102\<rparr>],
      next_id = 5\<rparr>"

definition chart_response :: upload_response where
  "chart_response =
     \<lparr>r_file_id = 2, r_filename = ''chart.png'', r_file_type = ''image'',
      r_analyses = [\<lparr>e_type = ''text_analysis'', e_content = ''summary'', e_success = None\<rparr>,
                    \<lparr>e_type = ''vision_analysis'', e_content = replicate 301 (CHR ''b''),
                     e_success = Some True\<rparr>],
      r_analysis_available = True,
      r_extracted_text = Some (replicate 500 (CHR ''a'') @ ''...''),
      r_vision_preview = Some (replicate 300 (CHR ''b'') @ ''...'')\<rparr>"

definition chart_item :: uploaded_item where
  "chart_item =
     \<lparr>u_id = 2, u_session_id = 1, u_user_id = 7, u_original_filename = ''chart.png'',
      u_file_type = ''image'', u_file_size = 5, u_mime_type = ''application/octet-stream'',
      u_file_content = ''bytes'', u_extracted_text = replicate 501 (CHR ''a''),
      u_uploaded_at = 100\<rparr>"

definition db_chart :: db where
  \<comment> \<open>\<open>db0\<close> after the upload of \<open>chart.png\<close> under \<open>long_outputs\<close> (either backend)\<close>
  "db_chart =
     \<lparr>chat_sessions = [\<lparr>s_id = 1, s_user_id = 7, s_updated_at = 103\<rparr>],
      messages = [], uploaded_items = [chart_item],
      analysis_results =
        [\<lparr>a_id = 3, a_item_id = 2, a_session_id = 1,
          a_analysis_type = ''image_text_analysis'', a_summary = ''summary'',
          a_created_at = 101\<rparr>,
         \<lparr>a_id = 4, a_item_id = 2, a_session_id = 1, a_analysis_type = ''vision_analysis'',
          a_summary = replicate 301 (CHR ''b''), a_created_at = 102\<rparr>],
      next_id = 5\<rparr>"

definition db_notes :: db where
  \<comment> \<open>a session whose only file is a text file: nothing extracted, no vision record\<close>
  "db_notes =
     db0\<lparr>uploaded_items :=
           [\<lparr>u_id = 2, u_session_id = 1, u_user_id = 7, u_original_filename = ''notes.txt'',
             u_file_type = ''other'', u_file_size = 5, u_mime_type = ''text/plain'',
             u_file_content = ''hello'', u_extracted_text = [], u_uploaded_at = 100\<rparr>],
         next_id := 3\<rparr>"

definition db_hi_hello :: db where
  \<comment> \<open>no files, two earlier messages\<close>
  "db_hi_hello =
     db0\<lparr>messages :=
           [\<lparr>m_session_id = 1, m_sender = ''user'', m_content = ''hi'', m_timestamp = 10\<rparr>,
            \<lparr>m_session_id = 1, m_sender = ''assistant'', m_content = ''hello'',
             m_timestamp = 11\<rparr>]\<rparr>"

definition invoice_item :: uploaded_item where
  "invoice_item =
     \<lparr>u_id = 2, u_session_id = 1, u_user_id = 7, u_original_filename = ''invoice.pdf'',
      u_file_type = ''pdf'', u_file_size = 4, u_mime_type = ''application/pdf'',
      u_file_content = ''%PDF'', u_extracted_text = ''Invoice #42 total $500'',
      u_uploaded_at = 5\<rparr>"



definition big_item :: uploaded_item where
  "big_item =
     invoice_item\<lparr>u_original_filename := ''big.pdf'',
                   u_extracted_text := replicate 2500 (CHR ''a'')\<rparr>"

definition db_big :: db where
  "db_big = db0\<lparr>uploaded_items := [big_item], next_id := 3\<rparr>"

definition orphan_analysis :: analysis_result where
  \<comment> \<open>a record whose item, number 9, is no longer stored\<close>
  "orphan_analysis =
     \<lparr>a_id = 10, a_item_id = 9, a_session_id = 1, a_analysis_type = ''pdf_text_analysis'',
      a_summary = ''summary'', a_created_at = 50\<rparr>"

definition db_orphan :: db where
  "db_orphan = db_photo\<lparr>analysis_results := orphan_analysis # analysis_results db_photo,
                         next_id := 11\<rparr>"

section \<open>Auxiliary lemmas\<close>

subsection \<open>Lists\<close>

lemma find_Some_set: "find P xs = Some x \<Longrightarrow> x \<in> set xs \<and> P x"
  by (auto simp: find_Some_iff)

lemma find_None_set: "find P xs = None \<longleftrightarrow> (\<forall>x\<in>set xs. \<not> P x)"
  by (auto simp: find_None_iff)


lemma sort_desc_sorted: "sorted (map key xs) \<Longrightarrow> sort_desc key xs = rev xs"
  by (simp add: sort_desc_def sort_key_id_if_sorted)

lemma rev_take_rev: "rev (take n (rev xs)) = drop (length xs - n) xs"
  by (simp add: rev_take)

lemma preview_length: "length (preview n s) \<le> n + 3"
  by (simp add: preview_def)

subsection \<open>The responder\<close>

lemma get_ai_response_except_cases:
  "get_ai_response_except e \<in>
     {model_not_found_sentence, permission_sentence, quota_sentence, authentication_sentence,
      generic_prefix @ take 100 e}"
  by (simp add: get_ai_response_except_def Let_def)

subsection \<open>Uploads\<close>

lemma upload_file_success:
  assumes "upload_file svc user file session_id d = (Inr r, d')"
  shows "\<exists>user_id sid filename file_content ext.
           user = Some user_id \<and> file = Some (filename, file_content) \<and> session_id = Some sid \<and>
           process_upload svc user_id sid filename file_content (secure_filename filename)
             (lower ext) d = (r, d')"
  using assms
  by (auto simp: upload_file_def Let_def split: option.splits if_splits sum.splits prod.splits)

lemma upload_file_mysql_success:
  assumes "upload_file_mysql svc c user file session_id d = (Inr r, d')"
  shows "\<exists>user_id sid filename file_content ext.
           user = Some user_id \<and> file = Some (filename, file_content) \<and> session_id = Some sid \<and>
           process_upload_mysql svc user_id sid filename file_content (secure_filename filename)
             (lower ext) d = (r, d')"
  using assms
  by (auto simp: upload_file_mysql_def Let_def
      split: option.splits if_splits sum.splits prod.splits)

lemma save_text_analysis_results:
  "analysis_results (fst (save_text_analysis svc i s ft et (d, an))) =
     analysis_results d @
       (if strip et \<noteq> [] then
          [\<lparr>a_id = next_id d, a_item_id = i, a_session_id = s,
            a_analysis_type = ft @ ''_text_analysis'',
            a_summary = get_ai_response (generate svc)
               (''Summarize and extract key points:\<newline>\<newline>'' @ take 2000 et) [],
            a_created_at = utcnow svc 1\<rparr>]
        else [])"
  by (simp add: save_text_analysis_def Let_def)

lemma save_text_analysis_mysql_results:
  "analysis_results (fst (save_text_analysis_mysql svc i s ft et (d, an))) =
     analysis_results d @
       (if strip et \<noteq> [] then
          [\<lparr>a_id = next_id d, a_item_id = i, a_session_id = s,
            a_analysis_type = ft @ ''_text_analysis'',
            a_summary = get_ai_analysis (generate svc) et ft,
            a_created_at = utcnow svc 1\<rparr>]
        else [])"
  by (simp add: save_text_analysis_mysql_def Let_def)

lemma save_vision_analysis_results:
  "analysis_results (fst (save_vision_analysis svc i s ft va st)) =
     analysis_results (fst st) @
       (case va of None \<Rightarrow> []
        | Some v \<Rightarrow> if ft = ''image'' then
          [\<lparr>a_id = next_id (fst st), a_item_id = i, a_session_id = s,
            a_analysis_type = ''vision_analysis'',
            a_summary = analysis v,
            a_created_at = utcnow svc 2\<rparr>]
        else [])"
  by (cases st) (simp add: save_vision_analysis_def split: option.splits)

lemma save_text_analysis_entries:
  "snd (save_text_analysis svc i s ft et (d, an)) =
     an @ (if strip et \<noteq> [] then
          [\<lparr>e_type = ''text_analysis'',
            e_content = get_ai_response (generate svc)
               (''Summarize and extract key points:\<newline>\<newline>'' @ take 2000 et) [],
            e_success = None\<rparr>]
        else [])"
  by (simp add: save_text_analysis_def Let_def)

lemma save_text_analysis_mysql_entries:
  "snd (save_text_analysis_mysql svc i s ft et (d, an)) =
     an @ (if strip et \<noteq> [] then
          [\<lparr>e_type = ''text_analysis'',
            e_content = get_ai_analysis (generate svc) et ft,
            e_success = None\<rparr>]
        else [])"
  by (simp add: save_text_analysis_mysql_def Let_def)

lemma save_vision_analysis_entries:
  "snd (save_vision_analysis svc i s ft va st) =
     snd st @
       (case va of None \<Rightarrow> []
        | Some v \<Rightarrow> if ft = ''image'' then
          [\<lparr>e_type = ''vision_analysis'', e_content = analysis v,
            e_success = Some (success v)\<rparr>]
        else [])"
  by (cases st) (simp add: save_vision_analysis_def split: option.splits)

lemma extract_by_type_cases:
  assumes "extract_by_type svc ext fc = (et, va, ft)"
  shows "(ft = ''pdf'' \<and> va = None) \<or>
         (ft = ''image'' \<and> va = Some (analyze_image_with_vision svc fc ''Describe this image'')) \<or>
         (ft = ''other'' \<and> va = None \<and> et = [])"
  using assms by (auto simp: extract_by_type_def split: if_splits)

lemma extract_by_type_mysql_cases:
  assumes "extract_by_type_mysql svc ext fc = (et, va, ft)"
  shows "(ft = ''pdf'' \<and> va = None) \<or>
         (ft = ''image'' \<and> va = Some (analyze_image_with_vision_mysql svc fc
                                        ''Describe what you see in this image'')) \<or>
         (ft = ''other'' \<and> va = None \<and> et = [])"
  using assms by (auto simp: extract_by_type_mysql_def split: if_splits)

lemma process_upload_vision:
  assumes "process_upload svc uid sid fn fc ofn ext d = (r, d')"
  shows "map a_summary (filter (\<lambda>a. a_analysis_type a = ''vision_analysis'')
                        (drop (length (analysis_results d)) (analysis_results d')))
           = (if r_file_type r = ''image''
              then [analysis (analyze_image_with_vision svc fc ''Describe this image'')] else [])"
    and "map e_success (filter (\<lambda>e. e_type e = ''vision_analysis'') (r_analyses r))
           = (if r_file_type r = ''image''
              then [Some (success (analyze_image_with_vision svc fc ''Describe this image''))]
              else [])"
proof -
  obtain et va ft where e: "extract_by_type svc ext fc = (et, va, ft)"
    by (cases "extract_by_type svc ext fc") auto
  from extract_by_type_cases [OF e] assms e
  show "map a_summary (filter (\<lambda>a. a_analysis_type a = ''vision_analysis'')
                        (drop (length (analysis_results d)) (analysis_results d')))
           = (if r_file_type r = ''image''
              then [analysis (analyze_image_with_vision svc fc ''Describe this image'')] else [])"
    by (auto simp: process_upload_def Let_def save_vision_analysis_results
        save_text_analysis_results)
  from extract_by_type_cases [OF e] assms e
  show "map e_success (filter (\<lambda>e. e_type e = ''vision_analysis'') (r_analyses r))
           = (if r_file_type r = ''image''
              then [Some (success (analyze_image_with_vision svc fc ''Describe this image''))]
              else [])"
    by (auto simp: process_upload_def Let_def save_vision_analysis_entries
        save_text_analysis_entries)
qed

lemma process_upload_mysql_vision:
  assumes "process_upload_mysql svc uid sid fn fc ofn ext d = (r, d')"
  shows "map a_summary (filter (\<lambda>a. a_analysis_type a = ''vision_analysis'')
                        (drop (length (analysis_results d)) (analysis_results d')))
           = (if r_file_type r = ''image''
              then [analysis (analyze_image_with_vision_mysql svc fc
                                ''Describe what you see in this image'')] else [])"
    and "map e_success (filter (\<lambda>e. e_type e = ''vision_analysis'') (r_analyses r))
           = (if r_file_type r = ''image''
              then [Some (success (analyze_image_with_vision_mysql svc fc
                                     ''Describe what you see in this image''))]
              else [])"
proof -
  obtain et va ft where e: "extract_by_type_mysql svc ext fc = (et, va, ft)"
    by (cases "extract_by_type_mysql svc ext fc") auto
  from extract_by_type_mysql_cases [OF e] assms e
  show "map a_summary (filter (\<lambda>a. a_analysis_type a = ''vision_analysis'')
                        (drop (length (analysis_results d)) (analysis_results d')))
           = (if r_file_type r = ''image''
              then [analysis (analyze_image_with_vision_mysql svc fc
                                ''Describe what you see in this image'')] else [])"
    by (auto simp: process_upload_mysql_def Let_def save_vision_analysis_results
        save_text_analysis_mysql_results)
  from extract_by_type_mysql_cases [OF e] assms e
  show "map e_success (filter (\<lambda>e. e_type e = ''vision_analysis'') (r_analyses r))
           = (if r_file_type r = ''image''
              then [Some (success (analyze_image_with_vision_mysql svc fc
                                     ''Describe what you see in this image''))]
              else [])"
    by (auto simp: process_upload_mysql_def Let_def save_vision_analysis_entries
        save_text_analysis_mysql_entries)
qed

lemma process_upload_previews:
  assumes "process_upload svc uid sid fn fc ofn ext d = (r, d')"
  shows "(\<forall>p. r_extracted_text r = Some p \<longrightarrow> length p \<le> 503) \<and>
         (\<forall>p. r_vision_preview r = Some p \<longrightarrow> length p \<le> 303)"
  using assms preview_length [of 500] preview_length [of 300]
  by (auto simp: process_upload_def Let_def split: prod.splits option.splits if_splits)

lemma process_upload_mysql_previews:
  assumes "process_upload_mysql svc uid sid fn fc ofn ext d = (r, d')"
  shows "(\<forall>p. r_extracted_text r = Some p \<longrightarrow> length p \<le> 503) \<and>
         (\<forall>p. r_vision_preview r = Some p \<longrightarrow> length p \<le> 303)"
  using assms preview_length [of 500] preview_length [of 300]
  by (auto simp: process_upload_mysql_def Let_def split: prod.splits option.splits if_splits)

subsection \<open>Context composition\<close>

lemma find_vision_save_message:
  "find_vision (save_message s who c t d) u = find_vision d u"
  by (simp add: find_vision_def save_message_def)

lemma file_contexts_save_message:
  "file_contexts (save_message s who c t d) sid = file_contexts d sid"
  by (simp add: file_contexts_def find_vision_save_message) (simp add: save_message_def)

lemma file_contexts_empty:
  assumes "\<forall>u\<in>set (uploaded_items d). u_session_id u = sid \<longrightarrow>
             u_extracted_text u = [] \<and>
             (case find_vision d u of None \<Rightarrow> True | Some v \<Rightarrow> a_summary v = [])"
  shows "file_contexts d sid = []"
  using assms by (auto simp: file_contexts_def Let_def split: option.splits)

lemma file_contexts_elem:
  assumes "c \<in> set (file_contexts d sid)"
  shows "(\<exists>u\<in>set (uploaded_items d). c = text_context u) \<or>
         (\<exists>u\<in>set (uploaded_items d). \<exists>v. find_vision d u = Some v \<and> c = vision_context u v)"
proof -
  from assms consider
    (a) u where "u \<in> set (uploaded_items d)" "u_extracted_text u \<noteq> []"
      "c = text_context u"
  | (b) u where "u \<in> set (uploaded_items d)"
      "c \<in> set (case find_vision d u of None \<Rightarrow> []
                 | Some vision \<Rightarrow>
                     if a_summary vision \<noteq> [] then [vision_context u vision] else [])"
    by (auto simp: file_contexts_def Let_def split: if_splits)
  then show ?thesis
  proof cases
    case a
    then show ?thesis by blast
  next
    case b
    then show ?thesis
      by (cases "find_vision d u") (auto split: if_splits)
  qed
qed



lemma send_message_reply:
  "fst (send_message svc (Some uid) sid raw d) =
     Inr \<lparr>user_message = strip raw,
          ai_message =
            (case ai_call (save_message sid ''user'' (strip raw) (utcnow svc 0) d) sid
                    (strip raw) of
               (prompt, context) \<Rightarrow> get_ai_response (generate svc) prompt context)\<rparr>"
  by (simp add: send_message_def Let_def split: prod.splits)

lemma recent_context_sorted:
  assumes "sorted (map m_timestamp (filter (\<lambda>m. m_session_id m = sid) (messages d)))"
  shows "recent_context d sid =
           join ''\<newline>'' (map (\<lambda>m. m_sender m @ '': '' @ m_content m)
             (drop (length (filter (\<lambda>m. m_session_id m = sid) (messages d)) - 5)
                (filter (\<lambda>m. m_session_id m = sid) (messages d))))"
  using assms by (simp add: recent_context_def sort_desc_sorted rev_take_rev)

subsection \<open>The item and the records that an upload stores\<close>

lemma save_text_analysis_items:
  "uploaded_items (fst (save_text_analysis svc i s ft et (d, an))) = uploaded_items d"
  by (simp add: save_text_analysis_def Let_def)

lemma save_text_analysis_mysql_items:
  "uploaded_items (fst (save_text_analysis_mysql svc i s ft et (d, an))) = uploaded_items d"
  by (simp add: save_text_analysis_mysql_def Let_def)

lemma save_vision_analysis_items:
  "uploaded_items (fst (save_vision_analysis svc i s ft va st)) = uploaded_items (fst st)"
  by (cases st) (simp add: save_vision_analysis_def split: option.splits)

lemma process_upload_item:
  assumes "process_upload svc uid sid fn fc ofn ext d = (r, d')"
  shows "\<exists>item. uploaded_items d' = uploaded_items d @ [item] \<and> u_id item = r_file_id r \<and>
           u_session_id item = sid \<and>
           r_extracted_text r =
             (if strip (u_extracted_text item) \<noteq> []
              then Some (preview 500 (u_extracted_text item)) else None)"
  using assms
  by (auto simp: process_upload_def Let_def save_vision_analysis_items
      save_text_analysis_items split: prod.splits)

lemma process_upload_mysql_item:
  assumes "process_upload_mysql svc uid sid fn fc ofn ext d = (r, d')"
  shows "\<exists>item. uploaded_items d' = uploaded_items d @ [item] \<and> u_id item = r_file_id r \<and>
           u_session_id item = sid \<and>
           r_extracted_text r =
             (if strip (u_extracted_text item) \<noteq> []
              then Some (preview 500 (u_extracted_text item)) else None)"
  using assms
  by (auto simp: process_upload_mysql_def Let_def save_vision_analysis_items
      save_text_analysis_mysql_items split: prod.splits)

lemma process_upload_vision_owner:
  assumes "process_upload svc uid sid fn fc ofn ext d = (r, d')"
  shows "map (\<lambda>a. (a_item_id a, a_session_id a))
           (filter (\<lambda>a. a_analysis_type a = ''vision_analysis'')
              (drop (length (analysis_results d)) (analysis_results d')))
           = (if r_file_type r = ''image'' then [(r_file_id r, sid)] else [])"
proof -
  obtain et va ft where e: "extract_by_type svc ext fc = (et, va, ft)"
    by (cases "extract_by_type svc ext fc") auto
  from extract_by_type_cases [OF e] assms e show ?thesis
    by (auto simp: process_upload_def Let_def save_vision_analysis_results
        save_text_analysis_results)
qed

lemma process_upload_mysql_vision_owner:
  assumes "process_upload_mysql svc uid sid fn fc ofn ext d = (r, d')"
  shows "map (\<lambda>a. (a_item_id a, a_session_id a))
           (filter (\<lambda>a. a_analysis_type a = ''vision_analysis'')
              (drop (length (analysis_results d)) (analysis_results d')))
           = (if r_file_type r = ''image'' then [(r_file_id r, sid)] else [])"
proof -
  obtain et va ft where e: "extract_by_type_mysql svc ext fc = (et, va, ft)"
    by (cases "extract_by_type_mysql svc ext fc") auto
  from extract_by_type_mysql_cases [OF e] assms e show ?thesis
    by (auto simp: process_upload_mysql_def Let_def save_vision_analysis_results
        save_text_analysis_mysql_results)
qed

lemma process_upload_vision_preview:
  assumes "process_upload svc uid sid fn fc ofn ext d = (r, d')"
    and "r_vision_preview r = Some p"
  shows "\<exists>t. vision_generate svc ''Describe this image'' fc = Response t \<and> p = preview 300 t"
proof -
  obtain et va ft where e: "extract_by_type svc ext fc = (et, va, ft)"
    by (cases "extract_by_type svc ext fc") auto
  from extract_by_type_cases [OF e] assms e show ?thesis
    by (auto simp: process_upload_def Let_def analyze_image_with_vision_def
        split: if_splits gen_result.splits)
qed

lemma process_upload_mysql_vision_preview:
  assumes "process_upload_mysql svc uid sid fn fc ofn ext d = (r, d')"
    and "r_vision_preview r = Some p"
  shows "\<exists>t. vision_generate svc (vision_prompt_mysql ''Describe what you see in this image'') fc
               = Response t \<and> p = preview 300 t"
proof -
  obtain et va ft where e: "extract_by_type_mysql svc ext fc = (et, va, ft)"
    by (cases "extract_by_type_mysql svc ext fc") auto
  from extract_by_type_mysql_cases [OF e] assms e show ?thesis
    by (auto simp: process_upload_mysql_def Let_def analyze_image_with_vision_mysql_def
        split: if_splits gen_result.splits)
qed

section \<open>Claims\<close>

subsection \<open>C1: the fallback to conversational mode\<close>

text \<open>
  Claim C1, as the code has it. When every uploaded item of the session has an empty extracted
  text and none of them has a stored \<open>vision_analysis\<close> record with a non-empty summary,
  \<open>send_message\<close> of \<open>app.py\<close> answers in conversational mode: it calls the responder with the
  question itself and the context built from the recent messages. The condition is on the
  stored records, not on the outcome of the visual-description calls.
\<close>

theorem send_message_conversational_fallback:
  assumes "\<forall>u\<in>set (uploaded_items d). u_session_id u = sid \<longrightarrow>
             u_extracted_text u = [] \<and>
             (case find_vision d u of None \<Rightarrow> True | Some v \<Rightarrow> a_summary v = [])"
  shows "fst (send_message svc (Some uid) sid raw d) =
           Inr \<lparr>user_message = strip raw,
                ai_message = get_ai_response (generate svc) (strip raw)
                  (recent_context (save_message sid ''user'' (strip raw) (utcnow svc 0) d) sid)\<rparr>"
  using file_contexts_empty [OF assms]
  by (simp add: send_message_reply ai_call_def file_contexts_save_message)

theorem send_message_conversational_fallback_witness:
  "map u_extracted_text (uploaded_items db_notes) = [[]]
   \<and> map (find_vision db_notes) (uploaded_items db_notes) = [None]
   \<and> fst (send_message vision_down (Some 7) 1 ''hi'' db_notes)
       = Inr \<lparr>user_message = ''hi'', ai_message = full_prompt ''hi'' ''user: hi''\<rparr>"
proof -
  have h: "\<forall>u\<in>set (uploaded_items db_notes). u_session_id u = 1 \<longrightarrow>
             u_extracted_text u = [] \<and>
             (case find_vision db_notes u of None \<Rightarrow> True | Some v \<Rightarrow> a_summary v = [])"
    by code_simp
  have a: "map u_extracted_text (uploaded_items db_notes) = [[]]"
    by code_simp
  have b: "map (find_vision db_notes) (uploaded_items db_notes) = [None]"
    by code_simp
  have "fst (send_message vision_down (Some 7) 1 ''hi'' db_notes) =
          Inr \<lparr>user_message = strip ''hi'',
               ai_message = get_ai_response (generate vision_down) (strip ''hi'')
                 (recent_context
                    (save_message 1 ''user'' (strip ''hi'') (utcnow vision_down 0) db_notes) 1)\<rparr>"
    by (rule send_message_conversational_fallback [OF h])
  also have "\<dots> = Inr \<lparr>user_message = ''hi'', ai_message = full_prompt ''hi'' ''user: hi''\<rparr>"
    by code_simp
  finally show ?thesis
    using a b by (intro conjI)
qed

text \<open>
  The claim as stated fails. The upload of an image whose text extraction yields nothing and
  whose visual-description call fails still stores a \<open>vision_analysis\<close> record, with the
  diagnostic as its summary; the next question is then answered in file-grounded mode, from
  that diagnostic.
\<close>

theorem failed_vision_upload_is_file_grounded:
  "upload_file vision_down (Some 7) (Some (''photo.png'', ''bytes'')) (Some 1) db0
     = (Inr photo_response, db_photo)
   \<and> map u_extracted_text (uploaded_items db_photo) = [[]]
   \<and> analyze_image_with_vision vision_down ''bytes'' ''Describe this image''
       = \<lparr>success = False, analysis = ''Error: timeout''\<rparr>
   \<and> fst (send_message vision_down (Some 7) 1 ''what is it?'' db_photo)
       = Inr \<lparr>user_message = ''what is it?'',
              ai_message =
                full_prompt
                  (grounded_prompt ''what is it?''
                     ''Vision analysis for photo.png:\<newline>Error: timeout'') []\<rparr>"
  by code_simp

subsection \<open>C2: the vision record of an image upload\<close>

text \<open>
  Claim C2, as the code has it. A successful upload stores one new item, whose identifier it
  returns. It stores exactly one new \<open>vision_analysis\<close> record when the file is an image and
  none otherwise, whatever the outcome of the visual-description call: the record refers to
  the new item and to the session of the upload, and its summary is the description when the
  call succeeds and the diagnostic when it fails. The outcome is reported in the \<open>success\<close>
  field of the entry in the response. Both backends do so.
\<close>

theorem upload_file_vision_record:
  "(upload_file svc user (Some (filename, file_content)) (Some sid) d = (Inr r, d') \<longrightarrow>
      map u_id (drop (length (uploaded_items d)) (uploaded_items d')) = [r_file_id r] \<and>
      map (\<lambda>a. (a_item_id a, a_session_id a))
          (filter (\<lambda>a. a_analysis_type a = ''vision_analysis'')
             (drop (length (analysis_results d)) (analysis_results d')))
        = (if r_file_type r = ''image'' then [(r_file_id r, sid)] else []) \<and>
      map a_summary (filter (\<lambda>a. a_analysis_type a = ''vision_analysis'')
                       (drop (length (analysis_results d)) (analysis_results d')))
        = (if r_file_type r = ''image''
           then [case vision_generate svc ''Describe this image'' file_content of
                   Response text \<Rightarrow> text | Failure e \<Rightarrow> ''Error: '' @ e]
           else []) \<and>
      map e_success (filter (\<lambda>e. e_type e = ''vision_analysis'') (r_analyses r))
        = (if r_file_type r = ''image''
           then [Some (case vision_generate svc ''Describe this image'' file_content of
                         Response text \<Rightarrow> True | Failure e \<Rightarrow> False)]
           else []))
   \<and> (upload_file_mysql svc connected user (Some (filename, file_content)) (Some sid) d
         = (Inr r2, d2) \<longrightarrow>
      map u_id (drop (length (uploaded_items d)) (uploaded_items d2)) = [r_file_id r2] \<and>
      map (\<lambda>a. (a_item_id a, a_session_id a))
          (filter (\<lambda>a. a_analysis_type a = ''vision_analysis'')
             (drop (length (analysis_results d)) (analysis_results d2)))
        = (if r_file_type r2 = ''image'' then [(r_file_id r2, sid)] else []) \<and>
      map a_summary (filter (\<lambda>a. a_analysis_type a = ''vision_analysis'')
                       (drop (length (analysis_results d)) (analysis_results d2)))
        = (if r_file_type r2 = ''image''
           then [case vision_generate svc
                        (vision_prompt_mysql ''Describe what you see in this image'')
                        file_content of
                   Response text \<Rightarrow> text
                 | Failure e \<Rightarrow> ''Unable to analyze the image visually. Error: '' @ e]
           else []) \<and>
      map e_success (filter (\<lambda>e. e_type e = ''vision_analysis'') (r_analyses r2))
        = (if r_file_type r2 = ''image''
           then [Some (case vision_generate svc
                              (vision_prompt_mysql ''Describe what you see in this image'')
                              file_content of
                         Response text \<Rightarrow> True | Failure e \<Rightarrow> False)]
           else []))"
proof (intro conjI impI)
  assume a: "upload_file svc user (Some (filename, file_content)) (Some sid) d = (Inr r, d')"
  from upload_file_success [OF a] obtain user_id ext where
    p: "process_upload svc user_id sid filename file_content (secure_filename filename)
          (lower ext) d = (r, d')"
    by auto
  show "map u_id (drop (length (uploaded_items d)) (uploaded_items d')) = [r_file_id r]"
    using process_upload_item [OF p] by auto
  show "map (\<lambda>a. (a_item_id a, a_session_id a))
          (filter (\<lambda>a. a_analysis_type a = ''vision_analysis'')
             (drop (length (analysis_results d)) (analysis_results d')))
        = (if r_file_type r = ''image'' then [(r_file_id r, sid)] else [])"
    by (rule process_upload_vision_owner [OF p])
  show "map a_summary (filter (\<lambda>a. a_analysis_type a = ''vision_analysis'')
                       (drop (length (analysis_results d)) (analysis_results d')))
        = (if r_file_type r = ''image''
           then [case vision_generate svc ''Describe this image'' file_content of
                   Response text \<Rightarrow> text | Failure e \<Rightarrow> ''Error: '' @ e]
           else [])"
    using process_upload_vision(1) [OF p]
    by (simp add: analyze_image_with_vision_def split: gen_result.splits)
  show "map e_success (filter (\<lambda>e. e_type e = ''vision_analysis'') (r_analyses r))
        = (if r_file_type r = ''image''
           then [Some (case vision_generate svc ''Describe this image'' file_content of
                         Response text \<Rightarrow> True | Failure e \<Rightarrow> False)]
           else [])"
    using process_upload_vision(2) [OF p]
    by (simp add: analyze_image_with_vision_def split: gen_result.splits)
next
  assume a: "upload_file_mysql svc connected user (Some (filename, file_content)) (Some sid) d
               = (Inr r2, d2)"
  from upload_file_mysql_success [OF a] obtain user_id ext where
    p: "process_upload_mysql svc user_id sid filename file_content (secure_filename filename)
          (lower ext) d = (r2, d2)"
    by auto
  show "map u_id (drop (length (uploaded_items d)) (uploaded_items d2)) = [r_file_id r2]"
    using process_upload_mysql_item [OF p] by auto
  show "map (\<lambda>a. (a_item_id a, a_session_id a))
          (filter (\<lambda>a. a_analysis_type a = ''vision_analysis'')
             (drop (length (analysis_results d)) (analysis_results d2)))
        = (if r_file_type r2 = ''image'' then [(r_file_id r2, sid)] else [])"
    by (rule process_upload_mysql_vision_owner [OF p])
  show "map a_summary (filter (\<lambda>a. a_analysis_type a = ''vision_analysis'')
                       (drop (length (analysis_results d)) (analysis_results d2)))
        = (if r_file_type r2 = ''image''
           then [case vision_generate svc
                        (vision_prompt_mysql ''Describe what you see in this image'')
                        file_content of
                   Response text \<Rightarrow> text
                 | Failure e \<Rightarrow> ''Unable to analyze the image visually. Error: '' @ e]
           else [])"
    using process_upload_mysql_vision(1) [OF p]
    by (simp add: analyze_image_with_vision_mysql_def split: gen_result.splits)
  show "map e_success (filter (\<lambda>e. e_type e = ''vision_analysis'') (r_analyses r2))
        = (if r_file_type r2 = ''image''
           then [Some (case vision_generate svc
                              (vision_prompt_mysql ''Describe what you see in this image'')
                              file_content of
                         Response text \<Rightarrow> True | Failure e \<Rightarrow> False)]
           else [])"
    using process_upload_mysql_vision(2) [OF p]
    by (simp add: analyze_image_with_vision_mysql_def split: gen_result.splits)
qed

theorem upload_file_vision_record_witness:
  "upload_file vision_down (Some 7) (Some (''photo.png'', ''bytes'')) (Some 1) db0
     = (Inr photo_response, db_photo)
   \<and> upload_file_mysql vision_down True (Some 7) (Some (''photo.png'', ''bytes'')) (Some 1) db0
     = (Inr photo_response_mysql, db_photo_mysql)
   \<and> r_file_id photo_response = 2 \<and> r_file_id photo_response_mysql = 2
   \<and> map u_id (drop (length (uploaded_items db0)) (uploaded_items db_photo)) = [2]
   \<and> map (\<lambda>a. (a_item_id a, a_session_id a))
          (filter (\<lambda>a. a_analysis_type a = ''vision_analysis'')
             (drop (length (analysis_results db0)) (analysis_results db_photo)))
       = [(2, 1)]
   \<and> map a_summary (filter (\<lambda>a. a_analysis_type a = ''vision_analysis'')
                      (drop (length (analysis_results db0)) (analysis_results db_photo)))
       = [''Error: timeout'']
   \<and> map e_success (filter (\<lambda>e. e_type e = ''vision_analysis'') (r_analyses photo_response))
       = [Some False]
   \<and> map (\<lambda>a. (a_item_id a, a_session_id a))
          (filter (\<lambda>a. a_analysis_type a = ''vision_analysis'')
             (drop (length (analysis_results db0)) (analysis_results db_photo_mysql)))
       = [(2, 1)]
   \<and> map a_summary (filter (\<lambda>a. a_analysis_type a = ''vision_analysis'')
                      (drop (length (analysis_results db0)) (analysis_results db_photo_mysql)))
       = [''Unable to analyze the image visually. Error: timeout'']"
proof -
  have h1: "upload_file vision_down (Some 7) (Some (''photo.png'', ''bytes'')) (Some 1) db0
              = (Inr photo_response, db_photo)"
    by code_simp
  have h2: "upload_file_mysql vision_down True (Some 7) (Some (''photo.png'', ''bytes''))
              (Some 1) db0
              = (Inr photo_response_mysql, db_photo_mysql)"
    by code_simp
  have t: "r_file_type photo_response = ''image''" "r_file_type photo_response_mysql = ''image''"
    and i: "r_file_id photo_response = 2" "r_file_id photo_response_mysql = 2"
    by (simp_all add: photo_response_def photo_response_mysql_def)
  have v: "vision_generate vision_down ''Describe this image'' ''bytes'' = Failure ''timeout''"
    "vision_generate vision_down (vision_prompt_mysql ''Describe what you see in this image'')
       ''bytes'' = Failure ''timeout''"
    by (simp_all add: vision_down_def)
  from upload_file_vision_record
         [of vision_down "Some 7" "''photo.png''" "''bytes''" 1 db0 photo_response db_photo
             True photo_response_mysql db_photo_mysql]
       h1 h2 t i v
  show ?thesis by simp
qed

text \<open>
  The claim as stated fails: under a failing visual-description call the upload of an image
  stores a \<open>vision_analysis\<close> record all the same, in both backends.
\<close>

theorem upload_file_failed_vision_recorded:
  "vision_generate vision_down ''Describe this image'' ''bytes'' = Failure ''timeout''
   \<and> upload_file vision_down (Some 7) (Some (''photo.png'', ''bytes'')) (Some 1) db0
       = (Inr photo_response, db_photo)
   \<and> map a_analysis_type (analysis_results db_photo) = [''vision_analysis'']
   \<and> map a_summary (analysis_results db_photo) = [''Error: timeout'']
   \<and> upload_file_mysql vision_down True (Some 7) (Some (''photo.png'', ''bytes'')) (Some 1) db0
       = (Inr photo_response_mysql, db_photo_mysql)
   \<and> map a_analysis_type (analysis_results db_photo_mysql) = [''vision_analysis'']
   \<and> map a_summary (analysis_results db_photo_mysql)
       = [''Unable to analyze the image visually. Error: timeout'']"
  by code_simp

subsection \<open>C3: a question on another user's session\<close>

text \<open>
  Claim C3 does not hold of \<open>send_message\<close> in \<open>app.py\<close>, which never looks the session up:
  user 8 asks on session 1, which belongs to user 7, and the operation answers and stores both
  the question and the reply. \<open>send_message\<close> of \<open>app_mysql.py\<close>, like \<open>upload_file\<close> of
  both backends, checks the owner first: at the same input it returns the 404 response and
  leaves the store as it was.
\<close>

theorem send_message_foreign_session:
  "map s_user_id (filter (\<lambda>s. s_id s = 1) (chat_sessions db0)) = [7]
   \<and> fst (send_message vision_down (Some 8) 1 ''hello'' db0)
       = Inr \<lparr>user_message = ''hello'', ai_message = full_prompt ''hello'' ''user: hello''\<rparr>
   \<and> messages (snd (send_message vision_down (Some 8) 1 ''hello'' db0))
       = [\<lparr>m_session_id = 1, m_sender = ''user'', m_content = ''hello'', m_timestamp = 100\<rparr>,
          \<lparr>m_session_id = 1, m_sender = ''assistant'',
           m_content = full_prompt ''hello'' ''user: hello'', m_timestamp = 101\<rparr>]
   \<and> send_message_mysql vision_down True (Some 8) (Some 1) ''hello'' None db0
       = (Inl SessionNotFound_mysql, db0)
   \<and> upload_file vision_down (Some 8) (Some (''photo.png'', ''bytes'')) (Some 1) db0
       = (Inl SessionNotFound, db0)"
  by code_simp

subsection \<open>C4: the categories of a failed model call\<close>

text \<open>
  Claim C4, as the code has it. In \<open>get_ai_response\<close> of \<open>app_mysql.py\<close> a failure whose
  lower-cased message contains \<open>quota\<close> or \<open>limit\<close>, and none of the markers \<open>not found\<close>,
  \<open>404\<close>, \<open>permission\<close> and \<open>403\<close> that are tested before, is answered with the fixed sentence
  of the rate-limit category. Every failure is answered with one of four fixed sentences or
  with the generic prefix followed by the first 100 characters of the message.
  \<open>get_ai_response\<close> of \<open>app.py\<close> has no categories: it answers \<open>AI error:\<close> followed by the
  whole message.
\<close>

theorem get_ai_response_failure_categories:
  "((sublist ''quota'' (lower e) \<or> sublist ''limit'' (lower e)) \<and>
      \<not> sublist ''not found'' (lower e) \<and> \<not> sublist ''404'' (lower e) \<and>
      \<not> sublist ''permission'' (lower e) \<and> \<not> sublist ''403'' (lower e)
      \<longrightarrow> get_ai_response_mysql (\<lambda>p. Failure e) prompt context = quota_sentence)
   \<and> get_ai_response_mysql (\<lambda>p. Failure e) prompt context \<in>
        {model_not_found_sentence, permission_sentence, quota_sentence,
         authentication_sentence, generic_prefix @ take 100 e}
   \<and> get_ai_response (\<lambda>p. Failure e) prompt context = ''AI error: '' @ e"
  using get_ai_response_except_cases [of e]
  by (simp add: get_ai_response_mysql_def get_ai_response_def get_ai_response_except_def Let_def)

theorem get_ai_response_failure_categories_witness:
  "(sublist ''quota'' (lower ''Quota exceeded for project'') \<and>
      \<not> sublist ''not found'' (lower ''Quota exceeded for project'') \<and>
      \<not> sublist ''404'' (lower ''Quota exceeded for project'') \<and>
      \<not> sublist ''permission'' (lower ''Quota exceeded for project'') \<and>
      \<not> sublist ''403'' (lower ''Quota exceeded for project''))
   \<and> get_ai_response_mysql (\<lambda>p. Failure ''Quota exceeded for project'') ''hi'' []
       = quota_sentence"
proof -
  have h: "sublist ''quota'' (lower ''Quota exceeded for project'') \<and>
      \<not> sublist ''not found'' (lower ''Quota exceeded for project'') \<and>
      \<not> sublist ''404'' (lower ''Quota exceeded for project'') \<and>
      \<not> sublist ''permission'' (lower ''Quota exceeded for project'') \<and>
      \<not> sublist ''403'' (lower ''Quota exceeded for project'')"
    by code_simp
  with get_ai_response_failure_categories [of "''Quota exceeded for project''" "''hi''" "[]"]
  show ?thesis by blast
qed

text \<open>
  The claim as stated fails: a message that contains \<open>quota\<close> after \<open>404\<close> falls in the
  category tested first, and the responder of \<open>app.py\<close> returns the raw message.
\<close>

theorem get_ai_response_quota_not_rate_limit:
  "sublist ''quota'' ''404 quota''
   \<and> get_ai_response_mysql (\<lambda>p. Failure ''404 quota'') ''hi'' [] = model_not_found_sentence
   \<and> model_not_found_sentence \<noteq> quota_sentence
   \<and> get_ai_response (\<lambda>p. Failure ''quota exceeded'') ''hi'' [] = ''AI error: quota exceeded''"
  by code_simp

subsection \<open>C5: the conversational context\<close>

text \<open>
  Claim C5, as the code has it. \<open>send_message\<close> of \<open>app.py\<close> stores the question before it
  reads the recent messages. When the session has no file context, the context is built from
  the five most recent messages of the session, the question among them, fetched in
  descending order of time, reversed, each as \<open>sender: content\<close>, joined by newlines. When
  moreover the messages of the session were stored in the order of strictly increasing
  timestamps, all earlier than the reading of the clock at which the question is stored, these
  are the last five of the stored messages followed by the question, in that order, so the
  question is the last line. With the two earlier messages \<open>user: hi\<close> and
  \<open>assistant: hello\<close> the context has three lines.
\<close>

theorem send_message_recent_context:
  assumes "file_contexts d sid = []"
  shows "fst (send_message svc (Some uid) sid raw d) =
           Inr \<lparr>user_message = strip raw,
                ai_message = get_ai_response (generate svc) (strip raw)
                  (join ''\<newline>'' (map (\<lambda>m. m_sender m @ '': '' @ m_content m)
                     (rev (take 5 (sort_desc m_timestamp
                        (filter (\<lambda>m. m_session_id m = sid) (messages d)
                         @ [\<lparr>m_session_id = sid, m_sender = ''user'', m_content = strip raw,
                             m_timestamp = utcnow svc 0\<rparr>]))))))\<rparr>
         \<and> (sorted_wrt (<) (map m_timestamp (filter (\<lambda>m. m_session_id m = sid) (messages d))
                              @ [utcnow svc 0]) \<longrightarrow>
              fst (send_message svc (Some uid) sid raw d) =
                Inr \<lparr>user_message = strip raw,
                     ai_message = get_ai_response (generate svc) (strip raw)
                       (join ''\<newline>'' (map (\<lambda>m. m_sender m @ '': '' @ m_content m)
                          (drop (length (filter (\<lambda>m. m_session_id m = sid) (messages d)) - 4)
                             (filter (\<lambda>m. m_session_id m = sid) (messages d)
                              @ [\<lparr>m_session_id = sid, m_sender = ''user'',
                                  m_content = strip raw,
                                  m_timestamp = utcnow svc 0\<rparr>]))))\<rparr>
              \<and> last (drop (length (filter (\<lambda>m. m_session_id m = sid) (messages d)) - 4)
                         (filter (\<lambda>m. m_session_id m = sid) (messages d)
                          @ [\<lparr>m_session_id = sid, m_sender = ''user'', m_content = strip raw,
                              m_timestamp = utcnow svc 0\<rparr>]))
                  = \<lparr>m_session_id = sid, m_sender = ''user'', m_content = strip raw,
                     m_timestamp = utcnow svc 0\<rparr>)"
proof -
  let ?d1 = "save_message sid ''user'' (strip raw) (utcnow svc 0) d"
  let ?ms = "filter (\<lambda>m. m_session_id m = sid) (messages d)"
  let ?new = "\<lparr>m_session_id = sid, m_sender = ''user'', m_content = strip raw,
                m_timestamp = utcnow svc 0\<rparr>"
  have f: "filter (\<lambda>m. m_session_id m = sid) (messages ?d1) = ?ms @ [?new]"
    by (simp add: save_message_def)
  have r: "recent_context ?d1 sid =
             join ''\<newline>'' (map (\<lambda>m. m_sender m @ '': '' @ m_content m)
               (rev (take 5 (sort_desc m_timestamp (?ms @ [?new])))))"
    by (simp only: recent_context_def Let_def f)
  have one: "fst (send_message svc (Some uid) sid raw d) =
           Inr \<lparr>user_message = strip raw,
                ai_message = get_ai_response (generate svc) (strip raw)
                  (join ''\<newline>'' (map (\<lambda>m. m_sender m @ '': '' @ m_content m)
                     (rev (take 5 (sort_desc m_timestamp (?ms @ [?new]))))))\<rparr>"
    using assms by (simp add: send_message_reply ai_call_def file_contexts_save_message r)
  have two: "fst (send_message svc (Some uid) sid raw d) =
                Inr \<lparr>user_message = strip raw,
                     ai_message = get_ai_response (generate svc) (strip raw)
                       (join ''\<newline>'' (map (\<lambda>m. m_sender m @ '': '' @ m_content m)
                          (drop (length ?ms - 4) (?ms @ [?new]))))\<rparr>"
    if s: "sorted_wrt (<) (map m_timestamp ?ms @ [utcnow svc 0])"
  proof -
    have "sorted_wrt (<) (map m_timestamp (?ms @ [?new]))"
      using s by simp
    then have "sorted (map m_timestamp (?ms @ [?new]))"
      by (rule strict_sorted_imp_sorted)
    then have "sort_desc m_timestamp (?ms @ [?new]) = rev (?ms @ [?new])"
      by (rule sort_desc_sorted)
    then have "rev (take 5 (sort_desc m_timestamp (?ms @ [?new])))
                 = drop (length ?ms - 4) (?ms @ [?new])"
      by (simp only: rev_take_rev) simp
    with one show ?thesis by (simp only:)
  qed
  have three: "last (drop (length ?ms - 4) (?ms @ [?new])) = ?new"
    by simp
  from one two three show ?thesis by blast
qed

theorem send_message_recent_context_witness:
  "file_contexts db_hi_hello 1 = []
   \<and> sorted_wrt (<) (map m_timestamp (filter (\<lambda>m. m_session_id m = 1) (messages db_hi_hello))
                       @ [utcnow vision_down 0])
   \<and> fst (send_message vision_down (Some 7) 1 ''how are you?'' db_hi_hello)
       = Inr \<lparr>user_message = ''how are you?'',
              ai_message =
                full_prompt ''how are you?''
                  ''user: hi\<newline>assistant: hello\<newline>user: how are you?''\<rparr>"
proof -
  have h1: "file_contexts db_hi_hello 1 = []"
    by code_simp
  have h2: "sorted_wrt (<)
              (map m_timestamp (filter (\<lambda>m. m_session_id m = 1) (messages db_hi_hello))
               @ [utcnow vision_down 0])"
    by code_simp
  have "fst (send_message vision_down (Some 7) 1 ''how are you?'' db_hi_hello) =
          Inr \<lparr>user_message = strip ''how are you?'',
               ai_message = get_ai_response (generate vision_down) (strip ''how are you?'')
                 (join ''\<newline>'' (map (\<lambda>m. m_sender m @ '': '' @ m_content m)
                    (drop (length (filter (\<lambda>m. m_session_id m = 1) (messages db_hi_hello)) - 4)
                       (filter (\<lambda>m. m_session_id m = 1) (messages db_hi_hello)
                        @ [\<lparr>m_session_id = 1, m_sender = ''user'',
                            m_content = strip ''how are you?'',
                            m_timestamp = utcnow vision_down 0\<rparr>]))))\<rparr>"
    by (rule conjunct1 [OF mp [OF conjunct2 [OF send_message_recent_context [OF h1]] h2]])
  also have "\<dots> = Inr \<lparr>user_message = ''how are you?'',
              ai_message =
                full_prompt ''how are you?''
                  ''user: hi\<newline>assistant: hello\<newline>user: how are you?''\<rparr>"
    by code_simp
  finally show ?thesis
    using h1 h2 by (intro conjI)
qed

text \<open>
  The claim as stated fails in its scenario: the context of the third question holds the
  question itself as a third line.
\<close>

theorem scenario_d_context_has_three_lines:
  "uploaded_items db_hi_hello = []
   \<and> map (\<lambda>m. m_sender m @ '': '' @ m_content m) (messages db_hi_hello)
       = [''user: hi'', ''assistant: hello'']
   \<and> ai_call (save_message 1 ''user'' ''how are you?'' 100 db_hi_hello) 1 ''how are you?''
       = (''how are you?'', ''user: hi\<newline>assistant: hello\<newline>user: how are you?'')
   \<and> ''user: hi\<newline>assistant: hello\<newline>user: how are you?''
       \<noteq> ''user: hi\<newline>assistant: hello''"
  by code_simp

subsection \<open>C6: the fragments of a file-grounded context\<close>

text \<open>
  Claim C6. Every entry of the file context that \<open>send_message\<close> of \<open>app.py\<close> composes is
  either the heading of an extracted text followed by at most 2000 characters of it, or the
  heading of a vision analysis followed by at most 1000 characters of its summary. The
  fragment is the whole text when the text is that short, and cutting a fragment again
  changes nothing.
\<close>

theorem file_contexts_fragments_bounded:
  "\<forall>c\<in>set (file_contexts d sid).
     (\<exists>u\<in>set (uploaded_items d). \<exists>frag.
        c = ''Extracted text from '' @ u_original_filename u @ '':\<newline>'' @ frag \<and>
        frag = take 2000 (u_extracted_text u) \<and> length frag \<le> 2000 \<and>
        (length (u_extracted_text u) \<le> 2000 \<longrightarrow> frag = u_extracted_text u) \<and>
        take 2000 frag = frag)
     \<or> (\<exists>u\<in>set (uploaded_items d). \<exists>v\<in>set (analysis_results d). \<exists>frag.
        c = ''Vision analysis for '' @ u_original_filename u @ '':\<newline>'' @ frag \<and>
        frag = take 1000 (a_summary v) \<and> length frag \<le> 1000 \<and>
        (length (a_summary v) \<le> 1000 \<longrightarrow> frag = a_summary v) \<and>
        take 1000 frag = frag)"
proof
  fix c assume "c \<in> set (file_contexts d sid)"
  then consider
    (extracted) u where "u \<in> set (uploaded_items d)" "c = text_context u"
  | (described) u v where "u \<in> set (uploaded_items d)" "find_vision d u = Some v"
      "c = vision_context u v"
    using file_contexts_elem by blast
  then show "(\<exists>u\<in>set (uploaded_items d). \<exists>frag.
        c = ''Extracted text from '' @ u_original_filename u @ '':\<newline>'' @ frag \<and>
        frag = take 2000 (u_extracted_text u) \<and> length frag \<le> 2000 \<and>
        (length (u_extracted_text u) \<le> 2000 \<longrightarrow> frag = u_extracted_text u) \<and>
        take 2000 frag = frag)
     \<or> (\<exists>u\<in>set (uploaded_items d). \<exists>v\<in>set (analysis_results d). \<exists>frag.
        c = ''Vision analysis for '' @ u_original_filename u @ '':\<newline>'' @ frag \<and>
        frag = take 1000 (a_summary v) \<and> length frag \<le> 1000 \<and>
        (length (a_summary v) \<le> 1000 \<longrightarrow> frag = a_summary v) \<and>
        take 1000 frag = frag)"
  proof cases
    case extracted
    then show ?thesis
      by (intro disjI1 bexI [of _ u]) (simp_all add: text_context_def)
  next
    case described
    from described(2) have "v \<in> set (analysis_results d)"
      by (auto simp: find_vision_def dest: find_Some_set)
    with described show ?thesis
      by (intro disjI2 bexI [of _ u] bexI [of _ v]) (simp_all add: vision_context_def)
  qed
qed

theorem file_contexts_fragments_bounded_witness:
  "file_contexts db_big 1
     = [''Extracted text from big.pdf:\<newline>'' @ replicate 2000 (CHR ''a'')]
   \<and> length (u_extracted_text big_item) = 2500
   \<and> (\<exists>u\<in>set (uploaded_items db_big). \<exists>frag.
        ''Extracted text from big.pdf:\<newline>'' @ replicate 2000 (CHR ''a'')
          = ''Extracted text from '' @ u_original_filename u @ '':\<newline>'' @ frag \<and>
        length frag \<le> 2000)"
proof -
  have f: "file_contexts db_big 1
             = [''Extracted text from big.pdf:\<newline>'' @ replicate 2000 (CHR ''a'')]"
    by (simp add: file_contexts_def db_big_def db0_def big_item_def invoice_item_def
        text_context_def find_vision_def)
  have l: "length (u_extracted_text big_item) = 2500"
    by (simp add: big_item_def)
  have n: "analysis_results db_big = []"
    by (simp add: db_big_def db0_def)
  have "''Extracted text from big.pdf:\<newline>'' @ replicate 2000 (CHR ''a'')
          \<in> set (file_contexts db_big 1)"
    by (simp only: f) simp
  with file_contexts_fragments_bounded [of db_big 1]
  have "\<exists>u\<in>set (uploaded_items db_big). \<exists>frag.
        ''Extracted text from big.pdf:\<newline>'' @ replicate 2000 (CHR ''a'')
          = ''Extracted text from '' @ u_original_filename u @ '':\<newline>'' @ frag \<and>
        length frag \<le> 2000"
    unfolding n by fastforce
  with f l show ?thesis by (intro conjI)
qed

subsection \<open>C7: the previews of an upload\<close>

text \<open>
  Claim C7, as the code has it. In a successful upload the preview of the extracted text,
  when there is one, is the extracted text of the stored item itself when that has at most
  500 characters and otherwise its first 500 characters followed by three dots, so it has at
  most 503 characters. The preview of the vision description, when there is one, comes from a
  visual-description call that succeeded: it is the description itself when that has at most
  300 characters and otherwise its first 300 characters followed by three dots, so it has at
  most 303 characters. Both backends do so.
\<close>

theorem upload_file_preview_bounds:
  "(upload_file svc user (Some (filename, file_content)) session_id d = (Inr r, d') \<longrightarrow>
      (\<forall>p. r_extracted_text r = Some p \<longrightarrow>
         (\<exists>item. uploaded_items d' = uploaded_items d @ [item] \<and> u_id item = r_file_id r \<and>
            p = (if length (u_extracted_text item) > 500
                 then take 500 (u_extracted_text item) @ ''...''
                 else u_extracted_text item))
         \<and> length p \<le> 503) \<and>
      (\<forall>p. r_vision_preview r = Some p \<longrightarrow>
         (\<exists>t. vision_generate svc ''Describe this image'' file_content = Response t \<and>
            p = (if length t > 300 then take 300 t @ ''...'' else t))
         \<and> length p \<le> 303))
   \<and> (upload_file_mysql svc connected user (Some (filename, file_content)) session_id d
         = (Inr r2, d2) \<longrightarrow>
      (\<forall>p. r_extracted_text r2 = Some p \<longrightarrow>
         (\<exists>item. uploaded_items d2 = uploaded_items d @ [item] \<and> u_id item = r_file_id r2 \<and>
            p = (if length (u_extracted_text item) > 500
                 then take 500 (u_extracted_text item) @ ''...''
                 else u_extracted_text item))
         \<and> length p \<le> 503) \<and>
      (\<forall>p. r_vision_preview r2 = Some p \<longrightarrow>
         (\<exists>t. vision_generate svc
                  (vision_prompt_mysql ''Describe what you see in this image'') file_content
                = Response t \<and>
            p = (if length t > 300 then take 300 t @ ''...'' else t))
         \<and> length p \<le> 303))"
proof (intro conjI impI allI)
  fix p
  assume a: "upload_file svc user (Some (filename, file_content)) session_id d = (Inr r, d')"
    and e: "r_extracted_text r = Some p"
  from upload_file_success [OF a] obtain user_id sid ext where
    u: "process_upload svc user_id sid filename file_content (secure_filename filename)
          (lower ext) d = (r, d')"
    by auto
  from process_upload_item [OF u] e
  show "\<exists>item. uploaded_items d' = uploaded_items d @ [item] \<and> u_id item = r_file_id r \<and>
            p = (if length (u_extracted_text item) > 500
                 then take 500 (u_extracted_text item) @ ''...''
                 else u_extracted_text item)"
    by (auto simp: preview_def split: if_splits)
  from process_upload_previews [OF u] e show "length p \<le> 503"
    by blast
next
  fix p
  assume a: "upload_file svc user (Some (filename, file_content)) session_id d = (Inr r, d')"
    and v: "r_vision_preview r = Some p"
  from upload_file_success [OF a] obtain user_id sid ext where
    u: "process_upload svc user_id sid filename file_content (secure_filename filename)
          (lower ext) d = (r, d')"
    by auto
  from process_upload_vision_preview [OF u v]
  show "\<exists>t. vision_generate svc ''Describe this image'' file_content = Response t \<and>
            p = (if length t > 300 then take 300 t @ ''...'' else t)"
    by (simp add: preview_def)
  from process_upload_previews [OF u] v show "length p \<le> 303"
    by blast
next
  fix p
  assume a: "upload_file_mysql svc connected user (Some (filename, file_content)) session_id d
               = (Inr r2, d2)"
    and e: "r_extracted_text r2 = Some p"
  from upload_file_mysql_success [OF a] obtain user_id sid ext where
    u: "process_upload_mysql svc user_id sid filename file_content (secure_filename filename)
          (lower ext) d = (r2, d2)"
    by auto
  from process_upload_mysql_item [OF u] e
  show "\<exists>item. uploaded_items d2 = uploaded_items d @ [item] \<and> u_id item = r_file_id r2 \<and>
            p = (if length (u_extracted_text item) > 500
                 then take 500 (u_extracted_text item) @ ''...''
                 else u_extracted_text item)"
    by (auto simp: preview_def split: if_splits)
  from process_upload_mysql_previews [OF u] e show "length p \<le> 503"
    by blast
next
  fix p
  assume a: "upload_file_mysql svc connected user (Some (filename, file_content)) session_id d
               = (Inr r2, d2)"
    and v: "r_vision_preview r2 = Some p"
  from upload_file_mysql_success [OF a] obtain user_id sid ext where
    u: "process_upload_mysql svc user_id sid filename file_content (secure_filename filename)
          (lower ext) d = (r2, d2)"
    by auto
  from process_upload_mysql_vision_preview [OF u v]
  show "\<exists>t. vision_generate svc
                  (vision_prompt_mysql ''Describe what you see in this image'') file_content
                = Response t \<and>
            p = (if length t > 300 then take 300 t @ ''...'' else t)"
    by (simp add: preview_def)
  from process_upload_mysql_previews [OF u] v show "length p \<le> 303"
    by blast
qed

theorem upload_file_preview_bounds_witness:
  "upload_file long_outputs (Some 7) (Some (''chart.png'', ''bytes'')) (Some 1) db0
     = (Inr chart_response, db_chart)
   \<and> upload_file_mysql long_outputs True (Some 7) (Some (''chart.png'', ''bytes'')) (Some 1) db0
     = (Inr chart_response, db_chart)
   \<and> length (u_extracted_text chart_item) = 501
   \<and> r_extracted_text chart_response = Some (replicate 500 (CHR ''a'') @ ''...'')
   \<and> r_vision_preview chart_response = Some (replicate 300 (CHR ''b'') @ ''...'')
   \<and> length (replicate 500 (CHR ''a'') @ ''...'') \<le> 503
   \<and> length (replicate 300 (CHR ''b'') @ ''...'') \<le> 303"
proof -
  have h1: "upload_file long_outputs (Some 7) (Some (''chart.png'', ''bytes'')) (Some 1) db0
              = (Inr chart_response, db_chart)"
    by code_simp
  have h2: "upload_file_mysql long_outputs True (Some 7) (Some (''chart.png'', ''bytes''))
              (Some 1) db0
              = (Inr chart_response, db_chart)"
    by code_simp
  have l: "length (u_extracted_text chart_item) = 501"
    by (simp add: chart_item_def)
  have t: "r_extracted_text chart_response = Some (replicate 500 (CHR ''a'') @ ''...'')"
    and v: "r_vision_preview chart_response = Some (replicate 300 (CHR ''b'') @ ''...'')"
    by (simp_all add: chart_response_def)
  from upload_file_preview_bounds
         [of long_outputs "Some 7" "''chart.png''" "''bytes''" "Some 1" db0 chart_response
             db_chart True chart_response db_chart]
       h1 h2 t v
  have "length (replicate 500 (CHR ''a'') @ ''...'') \<le> 503
        \<and> length (replicate 300 (CHR ''b'') @ ''...'') \<le> 303"
    by blast
  with h1 h2 l t v show ?thesis by (intro conjI) simp_all
qed

text \<open>
  The claim as stated fails: a text layer of 501 characters gives a preview of 503
  characters, and a description of 301 characters gives a preview of 303.
\<close>

theorem upload_file_preview_exceeds_bound:
  "(case fst (upload_file long_outputs (Some 7) (Some (''report.pdf'', ''%PDF'')) (Some 1) db0) of
      Inl err \<Rightarrow> None
    | Inr r \<Rightarrow> map_option length (r_extracted_text r)) = Some 503
   \<and> (case fst (upload_file long_outputs (Some 7) (Some (''chart.png'', ''bytes'')) (Some 1) db0) of
      Inl err \<Rightarrow> None
    | Inr r \<Rightarrow> map_option length (r_vision_preview r)) = Some 303"
  by code_simp

subsection \<open>C8: the listing of a session's analyses\<close>

text \<open>
  Claim C8, as the code has it. \<open>get_analyses\<close> of \<open>app_mysql.py\<close> joins the records with
  their items, so every row it returns belongs to a stored item. \<open>get_analyses\<close> of
  \<open>app.py\<close> returns a row for every record of the session, latest first, and leaves the file
  name and the file type of a row empty when the item of its record is no longer stored. For
  a logged-in user the MongoDB listing always returns rows.
\<close>

theorem get_analyses_listing:
  "(\<forall>rows. get_analyses_mysql connected (Some uid) sid d = Inr rows \<longrightarrow>
      (\<forall>row\<in>set rows. \<exists>u\<in>set (uploaded_items d).
         u_id u = g_item_id row \<and> g_filename row = u_original_filename u \<and>
         g_file_type row = u_file_type u))
   \<and> (\<exists>rows. get_analyses (Some uid) sid d = Inr rows \<and>
        map g_id rows =
          map a_id (sort_desc a_created_at
                      (filter (\<lambda>a. a_session_id a = sid) (analysis_results d))) \<and>
        (\<forall>row\<in>set rows. (\<forall>u\<in>set (uploaded_items d). u_id u \<noteq> g_item_id row) \<longrightarrow>
           g_filename row = [] \<and> g_file_type row = []))"
proof (intro conjI allI impI)
  fix rows assume "get_analyses_mysql connected (Some uid) sid d = Inr rows"
  then show "\<forall>row\<in>set rows. \<exists>u\<in>set (uploaded_items d).
         u_id u = g_item_id row \<and> g_filename row = u_original_filename u \<and>
         g_file_type row = u_file_type u"
    by (force simp: get_analyses_mysql_def split: if_splits)
next
  show "\<exists>rows. get_analyses (Some uid) sid d = Inr rows \<and>
        map g_id rows =
          map a_id (sort_desc a_created_at
                      (filter (\<lambda>a. a_session_id a = sid) (analysis_results d))) \<and>
        (\<forall>row\<in>set rows. (\<forall>u\<in>set (uploaded_items d). u_id u \<noteq> g_item_id row) \<longrightarrow>
           g_filename row = [] \<and> g_file_type row = [])"
    by (auto simp: get_analyses_def Let_def find_None_set split: option.splits
        dest: find_Some_set)
qed

theorem get_analyses_listing_witness:
  "get_analyses_mysql True (Some 7) 1 db_orphan
     = Inr [\<lparr>g_id = 3, g_item_id = 2, g_analysis_type = ''vision_analysis'',
             g_summary = ''Error: timeout'', g_created_at = 102,
             g_filename = ''photo.png'', g_file_type = ''image''\<rparr>]
   \<and> map u_id (uploaded_items db_orphan) = [2]
   \<and> map g_id (projr (get_analyses (Some 7) 1 db_orphan)) = [3, 10]
   \<and> map g_filename (projr (get_analyses (Some 7) 1 db_orphan)) = [''photo.png'', []]"
proof -
  have h: "get_analyses_mysql True (Some 7) 1 db_orphan
     = Inr [\<lparr>g_id = 3, g_item_id = 2, g_analysis_type = ''vision_analysis'',
             g_summary = ''Error: timeout'', g_created_at = 102,
             g_filename = ''photo.png'', g_file_type = ''image''\<rparr>]"
    by code_simp
  have i: "map u_id (uploaded_items db_orphan) = [2]"
    by code_simp
  have s: "map a_id (sort_desc a_created_at
                      (filter (\<lambda>a. a_session_id a = 1) (analysis_results db_orphan)))
             = [3, 10]"
    by code_simp
  have f: "map g_filename (projr (get_analyses (Some 7) 1 db_orphan)) = [''photo.png'', []]"
    by code_simp
  from get_analyses_listing [of True 7 1 db_orphan]
  obtain rows where "get_analyses (Some 7) 1 db_orphan = Inr rows"
    and "map g_id rows =
           map a_id (sort_desc a_created_at
                       (filter (\<lambda>a. a_session_id a = 1) (analysis_results db_orphan)))"
    by blast
  then have "map g_id (projr (get_analyses (Some 7) 1 db_orphan)) = [3, 10]"
    using s by simp
  with h i f show ?thesis by (intro conjI)
qed

text \<open>
  The claim as stated fails in the MongoDB backend: the record of an item that is no longer
  stored is listed, with an empty file name. The MySQL backend omits it.
\<close>

theorem get_analyses_lists_orphan:
  "map u_id (uploaded_items db_orphan) = [2]
   \<and> a_item_id orphan_analysis = 9
   \<and> get_analyses (Some 7) 1 db_orphan =
       Inr [\<lparr>g_id = 3, g_item_id = 2, g_analysis_type = ''vision_analysis'',
             g_summary = ''Error: timeout'', g_created_at = 102,
             g_filename = ''photo.png'', g_file_type = ''image''\<rparr>,
            \<lparr>g_id = 10, g_item_id = 9, g_analysis_type = ''pdf_text_analysis'',
             g_summary = ''summary'', g_created_at = 50, g_filename = [], g_file_type = []\<rparr>]
   \<and> map g_item_id (projr (get_analyses_mysql True (Some 7) 1 db_orphan)) = [2]"
  by code_simp

subsection \<open>C9: a file-grounded prompt does not depend on the conversation\<close>



subsection \<open>C10: the extension of the sanitized file name\<close>

text \<open>
  Claim C10 does not hold of the code. The file name \<open>.pdf\<close> passes \<open>allowed_file\<close>; the
  sanitizer strips its leading dot; \<open>rsplit\<close> of the result has one element, and the read of
  the element at position 1 raises. In \<open>app.py\<close> the exception leaves \<open>upload_file\<close>; in
  \<open>app_mysql.py\<close> the \<open>except\<close> clause turns it into the response \<open>Failed to upload file\<close>.
  Nothing is stored in either.
\<close>

theorem upload_file_dot_pdf_index_error:
  "allowed_file ''.pdf''
   \<and> secure_filename ''.pdf'' = ''pdf''
   \<and> rsplit (secure_filename ''.pdf'') = [''pdf'']
   \<and> index (rsplit (secure_filename ''.pdf'')) 1 = Inl IndexError
   \<and> upload_file vision_down (Some 7) (Some (''.pdf'', ''%PDF-1.4'')) (Some 1) db0
       = (Inl (Unhandled IndexError), db0)
   \<and> upload_file_mysql vision_down True (Some 7) (Some (''.pdf'', ''%PDF-1.4'')) (Some 1) db0
       = (Inl (FailedToUploadFile IndexError), db0)"
  by code_simp

end
